theory Spec2Isabelle
  imports Complex_Main "HOL-Library.AList"
begin

text \<open>
  A shallow embedding of the warrant evaluation engine of \<^verbatim>\<open>src/app.py\<close>: the MUTCD 2009
  threshold tables, the curve interpolator \<^verbatim>\<open>interpolate_threshold\<close> and the evaluators
  of Warrants 1, 2, 3, 4 and 7.

  Modelling decisions.
  \<^item> Python numbers (ints and floats alike) are reals; hour counters are naturals and
    lane and crash counts are integers. The evaluators and \<open>interpolate_threshold\<close> compute
    exactly; the rounding of double arithmetic in the interpolation is modelled apart, in
    \<open>interpolate_threshold_fl\<close>, for the monotonicity of the interpolation, the one property
    here that depends on it. NaN, infinities and overflow are outside the model.
  \<^item> A raise is a value: every function that can raise returns \<open>py_error + 'a\<close>, with
    \<open>Inl\<close> the exception. Python's \<^verbatim>\<open>None\<close> is \<open>None\<close> of an option, or \<open>PNone\<close> inside
    a result dictionary.
  \<^item> A dictionary is an association list in insertion order; \<^verbatim>\<open>d[k]\<close> is \<open>getitem\<close>
    (raising \<open>KeyError\<close>), \<^verbatim>\<open>d.update(...)\<close> is \<open>dict_update\<close>, and a verdict's field is
    read with \<open>map_of\<close>.
  \<^item> An f-string is kept as its parts (\<open>PFString\<close>): literal text and the interpolated
    values with their format specification, not rendered to characters.
  \<^item> The traffic table (a pandas DataFrame with the default index) is the list of its
    rows in order; \<^verbatim>\<open>sum\<close>, \<^verbatim>\<open>max\<close>, \<^verbatim>\<open>idxmax\<close>, \<^verbatim>\<open>nlargest\<close> and
    \<^verbatim>\<open>mean\<close> are the list functions below. The two volume columns are the datatype
    \<open>column\<close>.
\<close>

section \<open>Python errors and the curve interpolator\<close>

text \<open>
  \<^verbatim>\<open>interpolate_threshold\<close> (src/app.py, lines 92-108). \<open>truediv\<close> is Python's \<^verbatim>\<open>/\<close>,
  which raises on a zero divisor. \<open>interpolate_loop\<close> is the \<^verbatim>\<open>for\<close> loop over consecutive
  points; its result \<open>Inr None\<close> means that the loop ended without returning, after which
  the function returns the last point's value. \<open>sort_key fst\<close> is the stable
  \<^verbatim>\<open>sorted(curve_points, key=lambda x: x[0])\<close>, and indexing the empty sorted list raises
  \<open>IndexError\<close>. \<open>division_widths\<close> follows the same loop and records the divisor
  \<^verbatim>\<open>x2 - x1\<close> of every division the loop evaluates.
\<close>

datatype py_error = IndexError | KeyError | ZeroDivisionError

type_synonym curve = "(real \<times> real) list"

definition truediv :: "real \<Rightarrow> real \<Rightarrow> py_error + real" where
  "truediv a b = (if b = 0 then Inl ZeroDivisionError else Inr (a / b))"

fun interpolate_loop :: "curve \<Rightarrow> real \<Rightarrow> py_error + real option" where
  "interpolate_loop ((x1, y1) # (x2, y2) # ps) major_vol =
     (if x1 \<le> major_vol \<and> major_vol < x2 then
        (case truediv (y2 - y1) (x2 - x1) of
           Inl e \<Rightarrow> Inl e
         | Inr slope \<Rightarrow> Inr (Some (y1 + slope * (major_vol - x1))))
      else interpolate_loop ((x2, y2) # ps) major_vol)"
| "interpolate_loop _ major_vol = Inr None"

fun division_widths :: "curve \<Rightarrow> real \<Rightarrow> real list" where
  "division_widths ((x1, y1) # (x2, y2) # ps) major_vol =
     (if x1 \<le> major_vol \<and> major_vol < x2 then [x2 - x1]
      else division_widths ((x2, y2) # ps) major_vol)"
| "division_widths _ major_vol = []"

definition interpolate_threshold :: "curve \<Rightarrow> real \<Rightarrow> py_error + real option" where
  "interpolate_threshold curve_points major_vol =
     (let points = sort_key fst curve_points in
      if points = [] then Inl IndexError
      else if major_vol < fst (hd points) then Inr None
      else if major_vol \<ge> fst (last points) then Inr (Some (snd (last points)))
      else (case interpolate_loop points major_vol of
              Inl e \<Rightarrow> Inl e
            | Inr (Some y) \<Rightarrow> Inr (Some y)
            | Inr None \<Rightarrow> Inr (Some (snd (last points)))))"

section \<open>The interpolator in double-precision arithmetic\<close>



fun interpolate_loop_fl :: "(real \<Rightarrow> real) \<Rightarrow> curve \<Rightarrow> real \<Rightarrow> py_error + real option" where
  "interpolate_loop_fl rnd ((x1, y1) # (x2, y2) # ps) major_vol =
     (if x1 \<le> major_vol \<and> major_vol < x2 then
        (case truediv (rnd (y2 - y1)) (rnd (x2 - x1)) of
           Inl e \<Rightarrow> Inl e
         | Inr q \<Rightarrow> Inr (Some (rnd (y1 + rnd (rnd q * rnd (major_vol - x1))))))
      else interpolate_loop_fl rnd ((x2, y2) # ps) major_vol)"
| "interpolate_loop_fl rnd _ major_vol = Inr None"

definition interpolate_threshold_fl ::
  "(real \<Rightarrow> real) \<Rightarrow> curve \<Rightarrow> real \<Rightarrow> py_error + real option" where
  "interpolate_threshold_fl rnd curve_points major_vol =
     (let points = sort_key fst curve_points in
      if points = [] then Inl IndexError
      else if major_vol < fst (hd points) then Inr None
      else if major_vol \<ge> fst (last points) then Inr (Some (snd (last points)))
      else (case interpolate_loop_fl rnd points major_vol of
              Inl e \<Rightarrow> Inl e
            | Inr (Some y) \<Rightarrow> Inr (Some y)
            | Inr None \<Rightarrow> Inr (Some (snd (last points)))))"


section \<open>Python values, dictionaries and the traffic table\<close>

text \<open>
  \<open>pyval\<close> are the values stored in the verdict dictionaries. A row of the traffic table
  has the columns \<^verbatim>\<open>Hour\<close>, \<^verbatim>\<open>Street 1 (vph)\<close> and \<^verbatim>\<open>Street 2 (vph)\<close>;
  \<open>major_minor_cols\<close> is the choice of the major and the minor column that every evaluator
  makes from the column sums (ties make Street 1 the major street), and \<open>street_name\<close> is
  the column name with \<^verbatim>\<open>' (vph)'\<close> removed.
\<close>

datatype pyval = PNone | PBool bool | PInt int | PNum real | PStr string
  | PFString "fpart list" | PTuple "pyval list" | PList "pyval list"
  | PDict "(string \<times> pyval) list"
and fpart = Lit string | Fld pyval string

type_synonym pydict = "(string \<times> pyval) list"

definition getitem :: "('k \<times> 'v) list \<Rightarrow> 'k \<Rightarrow> py_error + 'v" where
  "getitem d k = (case map_of d k of None \<Rightarrow> Inl KeyError | Some v \<Rightarrow> Inr v)"

definition dict_update :: "pydict \<Rightarrow> pydict \<Rightarrow> pydict" where
  "dict_update d kvs = fold (\<lambda>(k, v). AList.update k v) kvs d"

definition bindE :: "'e + 'a \<Rightarrow> ('a \<Rightarrow> 'e + 'b) \<Rightarrow> 'e + 'b" where
  "bindE m f = (case m of Inl e \<Rightarrow> Inl e | Inr x \<Rightarrow> f x)"

definition py_pair :: "real \<times> real \<Rightarrow> pyval" where
  "py_pair t = PTuple [PNum (fst t), PNum (snd t)]"

definition py_curve :: "curve \<Rightarrow> pyval" where
  "py_curve c = PList (map py_pair c)"

definition py_opt :: "real option \<Rightarrow> pyval" where
  "py_opt t = (case t of None \<Rightarrow> PNone | Some y \<Rightarrow> PNum y)"

record hourly_count =
  Hour :: string
  Street_1 :: real
  Street_2 :: real

type_synonym dataframe = "hourly_count list"

datatype column = Street1 | Street2

fun col_name :: "column \<Rightarrow> string" where
  "col_name Street1 = ''Street 1 (vph)''"
| "col_name Street2 = ''Street 2 (vph)''"

fun street_name :: "column \<Rightarrow> string" where
  "street_name Street1 = ''Street 1''"
| "street_name Street2 = ''Street 2''"

fun vph :: "column \<Rightarrow> hourly_count \<Rightarrow> real" where
  "vph Street1 row = Street_1 row"
| "vph Street2 row = Street_2 row"

definition col_sum :: "dataframe \<Rightarrow> column \<Rightarrow> real" where
  "col_sum df c = sum_list (map (vph c) df)"

definition major_minor_cols :: "dataframe \<Rightarrow> column \<times> column" where
  "major_minor_cols df =
     (let street1_total = col_sum df Street1; street2_total = col_sum df Street2 in
      if street1_total \<ge> street2_total then (Street1, Street2) else (Street2, Street1))"

section \<open>MUTCD 2009 threshold data\<close>

text \<open>
  The tables of src/app.py, lines 20-73, as nested association lists with the same keys,
  and \<^verbatim>\<open>get_lane_key\<close> and \<^verbatim>\<open>get_threshold_percentage\<close> (lines 76-89).
\<close>

definition WARRANT1_THRESHOLDS ::
  "(string \<times> ((int \<times> int) \<times> (string \<times> (real \<times> real)) list) list) list" where
  "WARRANT1_THRESHOLDS = [
    (''condition_a'', [
      ((1, 1), [(''100'', (500, 150)), (''80'', (400, 120)), (''70'', (350, 105)), (''56'', (280, 84))]),
      ((2, 1), [(''100'', (600, 150)), (''80'', (480, 120)), (''70'', (420, 105)), (''56'', (336, 84))]),
      ((2, 2), [(''100'', (600, 200)), (''80'', (480, 160)), (''70'', (420, 140)), (''56'', (336, 112))]),
      ((1, 2), [(''100'', (500, 200)), (''80'', (400, 160)), (''70'', (350, 140)), (''56'', (280, 112))])]),
    (''condition_b'', [
      ((1, 1), [(''100'', (750, 75)), (''80'', (600, 60)), (''70'', (525, 53)), (''56'', (420, 42))]),
      ((2, 1), [(''100'', (900, 75)), (''80'', (720, 60)), (''70'', (630, 53)), (''56'', (504, 42))]),
      ((2, 2), [(''100'', (900, 100)), (''80'', (720, 80)), (''70'', (630, 70)), (''56'', (504, 56))]),
      ((1, 2), [(''100'', (750, 100)), (''80'', (600, 80)), (''70'', (525, 70)), (''56'', (420, 56))])])]"

definition WARRANT2_CURVES :: "(string \<times> ((int \<times> int) \<times> curve) list) list" where
  "WARRANT2_CURVES = [
    (''100'', [
      ((1, 1), [(300, 115), (400, 100), (500, 90), (600, 80), (700, 70), (800, 60), (900, 50), (1000, 40)]),
      ((2, 1), [(400, 115), (500, 100), (600, 90), (700, 80), (800, 70), (900, 60), (1000, 50), (1100, 40)]),
      ((2, 2), [(400, 150), (500, 135), (600, 120), (700, 105), (800, 95), (900, 85), (1000, 75), (1100, 65)]),
      ((1, 2), [(300, 150), (400, 135), (500, 120), (600, 105), (700, 95), (800, 85), (900, 75), (1000, 65)])]),
    (''70'', [
      ((1, 1), [(210, 80), (280, 70), (350, 63), (420, 56), (490, 49), (560, 42), (630, 35), (700, 28)]),
      ((2, 1), [(280, 80), (350, 70), (420, 63), (490, 56), (560, 49), (630, 42), (700, 35), (770, 28)]),
      ((2, 2), [(280, 105), (350, 95), (420, 84), (490, 74), (560, 67), (630, 60), (700, 53), (770, 46)]),
      ((1, 2), [(210, 105), (280, 95), (350, 84), (420, 74), (490, 67), (560, 60), (630, 53), (700, 46)])])]"

definition WARRANT3_CURVES :: "(string \<times> ((int \<times> int) \<times> curve) list) list" where
  "WARRANT3_CURVES = [
    (''100'', [
      ((1, 1), [(400, 150), (500, 135), (600, 120), (700, 105), (800, 100), (900, 100), (1000, 100)]),
      ((2, 1), [(500, 150), (600, 135), (700, 120), (800, 105), (900, 100), (1000, 100), (1100, 100)]),
      ((2, 2), [(500, 200), (600, 180), (700, 160), (800, 150), (900, 150), (1000, 150), (1100, 150)]),
      ((1, 2), [(400, 200), (500, 180), (600, 160), (700, 150), (800, 150), (900, 150), (1000, 150)])]),
    (''70'', [
      ((1, 1), [(280, 105), (350, 95), (420, 84), (490, 74), (560, 70), (630, 70), (700, 70)]),
      ((2, 1), [(350, 105), (420, 95), (490, 84), (560, 74), (630, 70), (700, 70), (770, 70)]),
      ((2, 2), [(350, 140), (420, 126), (490, 112), (560, 105), (630, 105), (700, 105), (770, 105)]),
      ((1, 2), [(280, 140), (350, 126), (420, 112), (490, 105), (560, 105), (630, 105), (700, 105)])])]"

definition WARRANT4_CURVES :: "(string \<times> curve) list" where
  "WARRANT4_CURVES = [
    (''four_hour_100'', [(300, 190), (400, 150), (500, 130), (600, 115), (700, 107), (800, 100), (900, 100), (1000, 100)]),
    (''four_hour_70'', [(210, 133), (280, 105), (350, 91), (420, 81), (490, 75), (560, 70), (630, 70), (700, 70)]),
    (''peak_hour_100'', [(300, 380), (400, 300), (500, 260), (600, 230), (700, 214), (800, 200), (900, 200), (1000, 200)]),
    (''peak_hour_70'', [(210, 266), (280, 210), (350, 182), (420, 161), (490, 150), (560, 140), (630, 140), (700, 140)])]"

definition get_lane_key :: "int \<Rightarrow> int \<Rightarrow> int \<times> int" where
  "get_lane_key major_lanes minor_lanes =
     (let major = (if major_lanes = 1 then 1 else 2);
          minor = (if minor_lanes = 1 then 1 else 2)
      in (major, minor))"

definition get_threshold_percentage :: "real \<Rightarrow> real \<Rightarrow> bool \<Rightarrow> string" where
  "get_threshold_percentage speed population is_combination =
     (let has_reduction = (speed > 40 \<or> population < 10000) in
      if is_combination then (if has_reduction then ''56'' else ''80'')
      else (if has_reduction then ''70'' else ''100''))"

section \<open>Warrant 1: eight-hour vehicular volume\<close>

text \<open>
  \<^verbatim>\<open>evaluate_warrant1\<close> (lines 111-182). \<open>w1_row\<close> is the body of the loop over the rows
  (lines 140-159), acting on the four counters and the list of hourly results;
  \<open>w1_verdict\<close> is the final \<^verbatim>\<open>if/elif\<close> chain that updates the result dictionary
  (lines 169-180); \<open>w1_threshold\<close> is the lookup
  \<^verbatim>\<open>WARRANT1_THRESHOLDS[cond][lane_key][pct]\<close>.
\<close>

definition w1_row ::
  "real \<times> real \<Rightarrow> real \<times> real \<Rightarrow> real \<times> real \<Rightarrow> real \<times> real \<Rightarrow> column \<Rightarrow> column
     \<Rightarrow> hourly_count \<Rightarrow> nat \<times> nat \<times> nat \<times> nat \<times> pyval list
     \<Rightarrow> nat \<times> nat \<times> nat \<times> nat \<times> pyval list" where
  "w1_row thresh_a thresh_b thresh_a_combo thresh_b_combo major_col minor_col row st =
     (case st of (hours_a, hours_b, hours_a_combo, hours_b_combo, hourly_results) \<Rightarrow>
      let major_vol = vph major_col row;
          minor_vol = vph minor_col row;
          meets_a = (major_vol \<ge> fst thresh_a \<and> minor_vol \<ge> snd thresh_a);
          meets_b = (major_vol \<ge> fst thresh_b \<and> minor_vol \<ge> snd thresh_b);
          meets_a_combo = (major_vol \<ge> fst thresh_a_combo \<and> minor_vol \<ge> snd thresh_a_combo);
          meets_b_combo = (major_vol \<ge> fst thresh_b_combo \<and> minor_vol \<ge> snd thresh_b_combo)
      in (if meets_a then hours_a + 1 else hours_a,
          if meets_b then hours_b + 1 else hours_b,
          if meets_a_combo then hours_a_combo + 1 else hours_a_combo,
          if meets_b_combo then hours_b_combo + 1 else hours_b_combo,
          hourly_results @ [PDict [
            (''hour'', PStr (Hour row)), (''major_vol'', PNum major_vol),
            (''minor_vol'', PNum minor_vol),
            (''meets_a'', PBool meets_a), (''meets_b'', PBool meets_b),
            (''thresh_a_major'', PNum (fst thresh_a)), (''thresh_a_minor'', PNum (snd thresh_a)),
            (''thresh_b_major'', PNum (fst thresh_b)), (''thresh_b_minor'', PNum (snd thresh_b))]]))"

definition w1_verdict ::
  "string \<Rightarrow> string \<Rightarrow> nat \<Rightarrow> nat \<Rightarrow> nat \<Rightarrow> nat \<Rightarrow> pydict \<Rightarrow> pydict" where
  "w1_verdict pct pct_combo hours_a hours_b hours_a_combo hours_b_combo result =
     (if hours_a \<ge> 8 then
        dict_update result [(''met'', PBool True), (''condition'', PStr ''A''),
          (''hours_met'', PInt (int hours_a)),
          (''details'', PFString [Lit ''Condition A MET: '', Fld (PInt (int hours_a)) [],
             Lit '' hours meet threshold ('', Fld (PStr pct) [], Lit ''%)''])]
      else if hours_b \<ge> 8 then
        dict_update result [(''met'', PBool True), (''condition'', PStr ''B''),
          (''hours_met'', PInt (int hours_b)),
          (''details'', PFString [Lit ''Condition B MET: '', Fld (PInt (int hours_b)) [],
             Lit '' hours meet threshold ('', Fld (PStr pct) [], Lit ''%)''])]
      else if hours_a_combo \<ge> 8 \<and> hours_b_combo \<ge> 8 then
        dict_update result [(''met'', PBool True), (''condition'', PStr ''A+B''),
          (''hours_met'', PInt (int (min hours_a_combo hours_b_combo))),
          (''details'', PFString [Lit ''Combination A+B MET: Both conditions meet '',
             Fld (PStr pct_combo) [], Lit ''% threshold for 8+ hours''])]
      else
        dict_update result [(''met'', PBool False),
          (''hours_met'', PInt (int (max hours_a hours_b))),
          (''details'', PFString [Lit ''NOT MET: Condition A ('', Fld (PInt (int hours_a)) [],
             Lit ''/8 hrs), Condition B ('', Fld (PInt (int hours_b)) [], Lit ''/8 hrs)''])])"

definition w1_threshold :: "string \<Rightarrow> int \<times> int \<Rightarrow> string \<Rightarrow> py_error + real \<times> real" where
  "w1_threshold cond lane_key pct =
     bindE (getitem WARRANT1_THRESHOLDS cond) (\<lambda>by_lane.
     bindE (getitem by_lane lane_key) (\<lambda>by_pct. getitem by_pct pct))"

definition evaluate_warrant1 ::
  "dataframe option \<Rightarrow> int \<Rightarrow> int \<Rightarrow> real \<Rightarrow> real \<Rightarrow> py_error + pydict" where
  "evaluate_warrant1 traffic_df major_lanes minor_lanes speed population =
     (if traffic_df = None \<or> length (the traffic_df) < 8 then
        Inr [(''met'', PNone), (''condition'', PNone), (''hours_met'', PInt 0),
             (''details'', PStr ''Insufficient data (need at least 8 hours)''),
             (''threshold_used'', PNone), (''hourly_results'', PNone)]
      else
        let df = the traffic_df;
            lane_key = get_lane_key major_lanes minor_lanes;
            pct = get_threshold_percentage speed population False;
            pct_combo = get_threshold_percentage speed population True
        in
        bindE (w1_threshold ''condition_a'' lane_key pct) (\<lambda>thresh_a.
        bindE (w1_threshold ''condition_b'' lane_key pct) (\<lambda>thresh_b.
        bindE (w1_threshold ''condition_a'' lane_key pct_combo) (\<lambda>thresh_a_combo.
        bindE (w1_threshold ''condition_b'' lane_key pct_combo) (\<lambda>thresh_b_combo.
        case major_minor_cols df of (major_col, minor_col) \<Rightarrow>
        case fold (w1_row thresh_a thresh_b thresh_a_combo thresh_b_combo major_col minor_col)
               df (0, 0, 0, 0, [])
        of (hours_a, hours_b, hours_a_combo, hours_b_combo, hourly_results) \<Rightarrow>
        let result = [(''met'', PBool False), (''condition'', PNone), (''hours_met'', PInt 0),
              (''details'', PStr []),
              (''threshold_used'', PDict [(''pct'', PStr pct),
                 (''condition_a'', py_pair thresh_a), (''condition_b'', py_pair thresh_b)]),
              (''hourly_results'', PList hourly_results),
              (''major_street'', PStr (street_name major_col)),
              (''minor_street'', PStr (street_name minor_col))]
        in Inr (w1_verdict pct pct_combo hours_a hours_b hours_a_combo hours_b_combo result))))))"

section \<open>Warrant 2: four-hour vehicular volume\<close>

text \<open>
  \<^verbatim>\<open>evaluate_warrant2\<close> (lines 185-233). \<open>curve_for\<close> is the lookup
  \<^verbatim>\<open>CURVES[pct][lane_key]\<close>; \<open>w2_rows\<close> is the loop over the rows (lines 209-222).
\<close>

definition curve_for ::
  "(string \<times> ((int \<times> int) \<times> curve) list) list \<Rightarrow> string \<Rightarrow> int \<times> int \<Rightarrow> py_error + curve" where
  "curve_for curves pct lane_key = bindE (getitem curves pct) (\<lambda>by_lane. getitem by_lane lane_key)"

fun w2_rows ::
  "curve \<Rightarrow> column \<Rightarrow> column \<Rightarrow> dataframe \<Rightarrow> nat \<times> pyval list \<Rightarrow> py_error + nat \<times> pyval list" where
  "w2_rows curve_points major_col minor_col [] st = Inr st"
| "w2_rows curve_points major_col minor_col (row # rows) (hours_above, hourly_results) =
     (let major_vol = vph major_col row;
          minor_vol = vph minor_col row
      in bindE (interpolate_threshold curve_points major_vol) (\<lambda>threshold.
         let above_curve = (threshold \<noteq> None \<and> minor_vol \<ge> the threshold)
         in w2_rows curve_points major_col minor_col rows
              (if above_curve then hours_above + 1 else hours_above,
               hourly_results @ [PDict [
                 (''hour'', PStr (Hour row)), (''major_vol'', PNum major_vol),
                 (''minor_vol'', PNum minor_vol),
                 (''threshold'', py_opt threshold), (''above_curve'', PBool above_curve)]])))"

definition evaluate_warrant2 ::
  "dataframe option \<Rightarrow> int \<Rightarrow> int \<Rightarrow> real \<Rightarrow> real \<Rightarrow> py_error + pydict" where
  "evaluate_warrant2 traffic_df major_lanes minor_lanes speed population =
     (if traffic_df = None \<or> length (the traffic_df) < 4 then
        Inr [(''met'', PNone), (''hours_met'', PInt 0),
             (''details'', PStr ''Insufficient data (need at least 4 hours)''),
             (''hourly_results'', PNone), (''curve_points'', PNone)]
      else
        let df = the traffic_df;
            lane_key = get_lane_key major_lanes minor_lanes;
            pct = (if speed > 40 \<or> population < 10000 then ''70'' else ''100'')
        in
        bindE (curve_for WARRANT2_CURVES pct lane_key) (\<lambda>curve_points.
        case major_minor_cols df of (major_col, minor_col) \<Rightarrow>
        bindE (w2_rows curve_points major_col minor_col df (0, [])) (\<lambda>(hours_above, hourly_results).
        Inr [(''met'', PBool (hours_above \<ge> 4)),
             (''hours_met'', PInt (int hours_above)),
             (''details'', PFString [Fld (PStr (if hours_above \<ge> 4 then ''MET'' else ''NOT MET'')) [],
                Lit '': '', Fld (PInt (int hours_above)) [], Lit ''/4 hours above curve ('',
                Fld (PStr pct) [], Lit ''%)'']),
             (''hourly_results'', PList hourly_results),
             (''curve_points'', py_curve curve_points),
             (''pct'', PStr pct),
             (''major_street'', PStr (street_name major_col)),
             (''minor_street'', PStr (street_name minor_col))])))"

section \<open>Warrant 3: peak hour\<close>

text \<open>
  \<^verbatim>\<open>evaluate_warrant3\<close> (lines 236-281). \<open>idxmax\<close> is pandas' \<^verbatim>\<open>Series.idxmax\<close> on the
  default index: a left-to-right scan that keeps the position of the largest value seen
  and replaces it only by a strictly larger one. \<open>truthy\<close> is the truth value Python
  gives to a threshold in \<^verbatim>\<open>... if threshold else ...\<close>: false for \<^verbatim>\<open>None\<close> and for zero.
\<close>

fun idxmax_from :: "real list \<Rightarrow> nat \<Rightarrow> nat \<Rightarrow> real \<Rightarrow> nat" where
  "idxmax_from [] i best_i best = best_i"
| "idxmax_from (x # xs) i best_i best =
     (if x > best then idxmax_from xs (i + 1) i x else idxmax_from xs (i + 1) best_i best)"

fun idxmax :: "real list \<Rightarrow> nat" where
  "idxmax (x # xs) = idxmax_from xs 1 0 x"
| "idxmax [] = 0"

definition truthy :: "real option \<Rightarrow> bool" where
  "truthy t = (case t of None \<Rightarrow> False | Some y \<Rightarrow> y \<noteq> 0)"

definition evaluate_warrant3 ::
  "dataframe option \<Rightarrow> int \<Rightarrow> int \<Rightarrow> real \<Rightarrow> real \<Rightarrow> py_error + pydict" where
  "evaluate_warrant3 traffic_df major_lanes minor_lanes speed population =
     (if traffic_df = None \<or> length (the traffic_df) < 1 then
        Inr [(''met'', PNone), (''details'', PStr ''Insufficient data''),
             (''peak_hour'', PNone), (''curve_points'', PNone)]
      else
        let df = the traffic_df;
            lane_key = get_lane_key major_lanes minor_lanes;
            pct = (if speed > 40 \<or> population < 10000 then ''70'' else ''100'')
        in
        bindE (curve_for WARRANT3_CURVES pct lane_key) (\<lambda>curve_points.
        case major_minor_cols df of (major_col, minor_col) \<Rightarrow>
        let total = map (\<lambda>row. vph major_col row + vph minor_col row) df;
            peak_idx = idxmax total;
            peak_row = df ! peak_idx;
            peak_major = vph major_col peak_row;
            peak_minor = vph minor_col peak_row;
            peak_hour = Hour peak_row
        in
        bindE (interpolate_threshold curve_points peak_major) (\<lambda>threshold.
        let above_curve = (threshold \<noteq> None \<and> peak_minor \<ge> the threshold);
            detail_str =
              (if truthy threshold then
                 PFString [Fld (PStr (if above_curve then ''MET'' else ''NOT MET'')) [],
                   Lit '': Peak hour ('', Fld (PStr peak_hour) [], Lit '') - '',
                   Fld (PNum peak_minor) ''.0f'', Lit '' vph vs '',
                   Fld (py_opt threshold) ''.0f'', Lit '' vph threshold ('',
                   Fld (PStr pct) [], Lit ''%)'']
               else PStr ''NOT MET: Major volume below curve range'')
        in
        Inr [(''met'', PBool above_curve),
             (''peak_hour'', PStr peak_hour),
             (''peak_major'', PNum peak_major),
             (''peak_minor'', PNum peak_minor),
             (''threshold'', py_opt threshold),
             (''details'', detail_str),
             (''curve_points'', py_curve curve_points),
             (''pct'', PStr pct),
             (''major_street'', PStr (street_name major_col)),
             (''minor_street'', PStr (street_name minor_col))])))"

section \<open>Warrant 4: pedestrian volume\<close>

text \<open>
  \<^verbatim>\<open>evaluate_warrant4\<close> (lines 284-359). \<open>nlargest\<close>, \<open>mean\<close> and \<open>col_max\<close> are the
  pandas operations of lines 325 and 329 on one column; \<open>w4_verdict\<close> is the part of the
  function after the two interpolations (lines 327-359).
\<close>

definition nlargest :: "nat \<Rightarrow> real list \<Rightarrow> real list" where
  "nlargest n xs = take n (rev (sort xs))"

definition mean :: "real list \<Rightarrow> real" where
  "mean xs = sum_list xs / real (length xs)"

definition col_max :: "dataframe \<Rightarrow> column \<Rightarrow> real" where
  "col_max df c = (case map (vph c) df of x # xs \<Rightarrow> fold max xs x)"

definition fmt0_or_na :: "real option \<Rightarrow> pyval" where
  "fmt0_or_na t = (if truthy t then PFString [Fld (py_opt t) ''.0f''] else PStr ''N/A'')"

definition w4_verdict ::
  "string \<Rightarrow> real \<Rightarrow> real \<Rightarrow> real \<Rightarrow> curve \<Rightarrow> curve \<Rightarrow> real option \<Rightarrow> real option \<Rightarrow> pydict" where
  "w4_verdict pct ped_peak ped_4hr gaps_per_hour four_hour_curve peak_hour_curve
       four_hr_threshold peak_hr_threshold =
     (let four_hour_met = (four_hr_threshold \<noteq> None \<and> ped_4hr \<ge> the four_hr_threshold);
          peak_hour_met = (peak_hr_threshold \<noteq> None \<and> ped_peak \<ge> the peak_hr_threshold);
          met = (four_hour_met \<or> peak_hour_met);
          criterion =
            (if met then PStr (if four_hour_met then ''Four-Hour'' else ''Peak Hour'')
             else PNone);
          details =
            (if met then
               (if four_hour_met then
                  PFString [Lit ''MET ('', Fld criterion [], Lit ''): '', Fld (PNum ped_4hr) [],
                    Lit '' peds/hr vs '', Fld (py_opt four_hr_threshold) ''.0f'',
                    Lit '' threshold ('', Fld (PStr pct) [], Lit ''%)'']
                else
                  PFString [Lit ''MET ('', Fld criterion [], Lit ''): '', Fld (PNum ped_peak) [],
                    Lit '' peds/hr vs '', Fld (py_opt peak_hr_threshold) ''.0f'',
                    Lit '' threshold ('', Fld (PStr pct) [], Lit ''%)''])
             else
               PFString [Lit ''NOT MET: 4-hr ('', Fld (PNum ped_4hr) [], Lit '' vs '',
                 Fld (fmt0_or_na four_hr_threshold) [], Lit ''), Peak ('',
                 Fld (PNum ped_peak) [], Lit '' vs '',
                 Fld (fmt0_or_na peak_hr_threshold) [], Lit '') ('',
                 Fld (PStr pct) [], Lit ''%)''])
      in [(''met'', PBool met),
          (''details'', details),
          (''criterion'', criterion),
          (''four_hour_met'', PBool four_hour_met),
          (''peak_hour_met'', PBool peak_hour_met),
          (''four_hour_threshold'', py_opt four_hr_threshold),
          (''peak_hour_threshold'', py_opt peak_hr_threshold),
          (''pct'', PStr pct),
          (''gaps_per_hour'', PNum gaps_per_hour),
          (''four_hour_curve'', py_curve four_hour_curve),
          (''peak_hour_curve'', py_curve peak_hour_curve)])"

definition evaluate_warrant4 ::
  "dataframe option \<Rightarrow> real \<Rightarrow> real \<Rightarrow> real \<Rightarrow> real \<Rightarrow> real \<Rightarrow> real \<Rightarrow> py_error + pydict" where
  "evaluate_warrant4 traffic_df speed population ped_peak ped_4hr gaps_per_hour dist_to_signal =
     (if dist_to_signal < 300 then
        Inr [(''met'', PBool False),
             (''details'', PStr ''NOT MET: Distance to nearest signal < 300 ft''),
             (''criterion'', PNone),
             (''four_hour_met'', PBool False),
             (''peak_hour_met'', PBool False)]
      else
        let gaps_ok = (gaps_per_hour < 60) in
        if \<not> gaps_ok then
          Inr [(''met'', PBool False),
               (''details'', PFString [Lit ''NOT MET: Adequate gaps ('', Fld (PNum gaps_per_hour) [],
                  Lit ''/hr) >= 60 required maximum'']),
               (''criterion'', PNone),
               (''four_hour_met'', PBool False),
               (''peak_hour_met'', PBool False)]
        else
          let use_70 = (speed > 35 \<or> population < 10000);
              pct = (if use_70 then ''70'' else ''100'')
          in
          bindE (getitem WARRANT4_CURVES (''four_hour_'' @ pct)) (\<lambda>four_hour_curve.
          bindE (getitem WARRANT4_CURVES (''peak_hour_'' @ pct)) (\<lambda>peak_hour_curve.
          if traffic_df = None \<or> length (the traffic_df) < 1 then
            Inr [(''met'', PNone),
                 (''details'', PStr ''Insufficient traffic data''),
                 (''criterion'', PNone),
                 (''four_hour_met'', PBool False),
                 (''peak_hour_met'', PBool False)]
          else
            let df = the traffic_df;
                street1_total = col_sum df Street1;
                street2_total = col_sum df Street2;
                major_col = (if street1_total \<ge> street2_total then Street1 else Street2);
                top_4_major = mean (nlargest 4 (map (vph major_col) df))
            in
            bindE (interpolate_threshold four_hour_curve top_4_major) (\<lambda>four_hr_threshold.
            let peak_major = col_max df major_col in
            bindE (interpolate_threshold peak_hour_curve peak_major) (\<lambda>peak_hr_threshold.
            Inr (w4_verdict pct ped_peak ped_4hr gaps_per_hour four_hour_curve peak_hour_curve
                   four_hr_threshold peak_hr_threshold))))))"

section \<open>Warrant 7: crash experience\<close>

text \<open>
  \<^verbatim>\<open>evaluate_warrant7\<close> (lines 442-586); \<open>w7_rows\<close> is the loop over the rows
  (lines 519-549).
\<close>

fun w7_rows ::
  "real \<times> real \<Rightarrow> real \<times> real \<Rightarrow> curve \<Rightarrow> column \<Rightarrow> column \<Rightarrow> dataframe
     \<Rightarrow> nat \<times> pyval list \<Rightarrow> py_error + nat \<times> pyval list" where
  "w7_rows thresh_a_80 thresh_b_80 curve_points major_col minor_col [] st = Inr st"
| "w7_rows thresh_a_80 thresh_b_80 curve_points major_col minor_col (row # rows)
       (hours_meeting_volume, hourly_results) =
     (let major_vol = vph major_col row;
          minor_vol = vph minor_col row;
          meets_w1_a = (major_vol \<ge> fst thresh_a_80 \<and> minor_vol \<ge> snd thresh_a_80);
          meets_w1_b = (major_vol \<ge> fst thresh_b_80 \<and> minor_vol \<ge> snd thresh_b_80)
      in bindE (interpolate_threshold curve_points major_vol) (\<lambda>w3_threshold.
         let meets_w3 = (w3_threshold \<noteq> None \<and> minor_vol \<ge> the w3_threshold);
             meets_volume = (meets_w1_a \<or> meets_w1_b \<or> meets_w3)
         in w7_rows thresh_a_80 thresh_b_80 curve_points major_col minor_col rows
              (if meets_volume then hours_meeting_volume + 1 else hours_meeting_volume,
               hourly_results @ [PDict [
                 (''hour'', PStr (Hour row)),
                 (''major_vol'', PNum major_vol),
                 (''minor_vol'', PNum minor_vol),
                 (''meets_w1_a'', PBool meets_w1_a),
                 (''meets_w1_b'', PBool meets_w1_b),
                 (''meets_w3'', PBool meets_w3),
                 (''meets_volume'', PBool meets_volume),
                 (''thresh_a'', py_pair thresh_a_80),
                 (''thresh_b'', py_pair thresh_b_80),
                 (''w3_threshold'', py_opt w3_threshold)]])))"

definition evaluate_warrant7 ::
  "dataframe option \<Rightarrow> int \<Rightarrow> int \<Rightarrow> real \<Rightarrow> real \<Rightarrow> int \<Rightarrow> bool \<Rightarrow> py_error + pydict" where
  "evaluate_warrant7 traffic_df major_lanes minor_lanes speed population
       correctable_crashes alternatives_tried =
     (if \<not> alternatives_tried then
        Inr [(''met'', PBool False),
             (''details'', PStr ''NOT MET: Adequate trial of alternatives not documented''),
             (''condition_a'', PBool False),
             (''condition_b'', PBool False),
             (''condition_c'', PBool False),
             (''correctable_crashes'', PInt correctable_crashes),
             (''hours_meeting_volume'', PInt 0)]
      else if correctable_crashes < 5 then
        Inr [(''met'', PBool False),
             (''details'', PFString [Lit ''NOT MET: '', Fld (PInt correctable_crashes) [],
                Lit '' correctable crashes < 5 required (12-month period)'']),
             (''condition_a'', PBool True),
             (''condition_b'', PBool False),
             (''condition_c'', PBool False),
             (''correctable_crashes'', PInt correctable_crashes),
             (''hours_meeting_volume'', PInt 0)]
      else if traffic_df = None \<or> length (the traffic_df) < 8 then
        Inr [(''met'', PBool False),
             (''details'', PStr ''NOT MET: Insufficient traffic data for volume analysis''),
             (''condition_a'', PBool True),
             (''condition_b'', PBool True),
             (''condition_c'', PBool False),
             (''correctable_crashes'', PInt correctable_crashes),
             (''hours_meeting_volume'', PInt 0)]
      else
        let df = the traffic_df;
            lane_key = get_lane_key major_lanes minor_lanes
        in
        bindE (w1_threshold ''condition_a'' lane_key ''80'') (\<lambda>thresh_a_80.
        bindE (w1_threshold ''condition_b'' lane_key ''80'') (\<lambda>thresh_b_80.
        let pct = (if speed > 40 \<or> population < 10000 then ''70'' else ''100'') in
        bindE (curve_for WARRANT3_CURVES pct lane_key) (\<lambda>curve_points.
        case major_minor_cols df of (major_col, minor_col) \<Rightarrow>
        bindE (w7_rows thresh_a_80 thresh_b_80 curve_points major_col minor_col df (0, []))
          (\<lambda>(hours_meeting_volume, hourly_results).
        let condition_c_met = (hours_meeting_volume \<ge> 8) in
        if condition_c_met then
          Inr [(''met'', PBool True),
               (''details'', PFString [Lit ''MET: '', Fld (PInt correctable_crashes) [],
                  Lit '' crashes, alternatives tried, '', Fld (PInt (int hours_meeting_volume)) [],
                  Lit ''/8 hrs volume'']),
               (''condition_a'', PBool True),
               (''condition_b'', PBool True),
               (''condition_c'', PBool True),
               (''correctable_crashes'', PInt correctable_crashes),
               (''hours_meeting_volume'', PInt (int hours_meeting_volume)),
               (''hourly_results'', PList hourly_results),
               (''thresh_a_80'', py_pair thresh_a_80),
               (''thresh_b_80'', py_pair thresh_b_80),
               (''curve_points'', py_curve curve_points),
               (''pct'', PStr pct),
               (''major_street'', PStr (street_name major_col)),
               (''minor_street'', PStr (street_name minor_col))]
        else
          Inr [(''met'', PBool False),
               (''details'', PFString [Lit ''NOT MET: Volume requirement - only '',
                  Fld (PInt (int hours_meeting_volume)) [], Lit ''/8 hours meet threshold'']),
               (''condition_a'', PBool True),
               (''condition_b'', PBool True),
               (''condition_c'', PBool False),
               (''correctable_crashes'', PInt correctable_crashes),
               (''hours_meeting_volume'', PInt (int hours_meeting_volume)),
               (''hourly_results'', PList hourly_results),
               (''thresh_a_80'', py_pair thresh_a_80),
               (''thresh_b_80'', py_pair thresh_b_80),
               (''curve_points'', py_curve curve_points),
               (''pct'', PStr pct),
               (''major_street'', PStr (street_name major_col)),
               (''minor_street'', PStr (street_name minor_col))])))))"

section \<open>The specification's reading of the hour counts\<close>

text \<open>
  The definitions of this section follow the wording of the specification and are what
  the evaluators are compared with: an hour meets a threshold pair iff its major volume
  reaches the pair's major threshold and its minor volume the pair's minor threshold;
  \<open>spec_hours\<close> counts such hours; \<open>curve_exceeded\<close> says that the interpolation yields a
  threshold and the second volume reaches it; \<open>spec_w7_hours\<close> counts the hours of
  Warrant 7's volume condition; \<open>hour_total\<close> is the major + minor total of a row;
  \<open>too_few_rows\<close> says that the series is missing or shorter than a minimum.
\<close>

definition hour_meets :: "real \<times> real \<Rightarrow> real \<Rightarrow> real \<Rightarrow> bool" where
  "hour_meets pair major_vol minor_vol = (major_vol \<ge> fst pair \<and> minor_vol \<ge> snd pair)"

definition spec_hours :: "real \<times> real \<Rightarrow> dataframe \<Rightarrow> nat" where
  "spec_hours pair df =
     (case major_minor_cols df of (major_col, minor_col) \<Rightarrow>
        length (filter (\<lambda>row. hour_meets pair (vph major_col row) (vph minor_col row)) df))"

definition curve_exceeded :: "curve \<Rightarrow> real \<Rightarrow> real \<Rightarrow> bool" where
  "curve_exceeded c major_vol minor_vol =
     (case interpolate_threshold c major_vol of
        Inr (Some t) \<Rightarrow> minor_vol \<ge> t
      | _ \<Rightarrow> False)"

definition spec_w7_hours :: "real \<times> real \<Rightarrow> real \<times> real \<Rightarrow> curve \<Rightarrow> dataframe \<Rightarrow> nat" where
  "spec_w7_hours pair_a pair_b c df =
     (case major_minor_cols df of (major_col, minor_col) \<Rightarrow>
        length (filter (\<lambda>row.
          hour_meets pair_a (vph major_col row) (vph minor_col row)
          \<or> hour_meets pair_b (vph major_col row) (vph minor_col row)
          \<or> curve_exceeded c (vph major_col row) (vph minor_col row)) df))"

definition hour_total :: "dataframe \<Rightarrow> nat \<Rightarrow> real" where
  "hour_total df i =
     (case major_minor_cols df of (major_col, minor_col) \<Rightarrow>
        vph major_col (df ! i) + vph minor_col (df ! i))"

definition too_few_rows :: "dataframe option \<Rightarrow> nat \<Rightarrow> bool" where
  "too_few_rows traffic_df n = (case traffic_df of None \<Rightarrow> True | Some df \<Rightarrow> length df < n)"

section \<open>Example inputs\<close>

definition example_curve :: curve where
  "example_curve = [(300, 115), (400, 100), (500, 90)]"

definition scenario_a :: dataframe where
  "scenario_a = map (\<lambda>h. \<lparr>Hour = h, Street_1 = 600, Street_2 = 200\<rparr>)
     [''6:00'', ''7:00'', ''8:00'', ''9:00'', ''10:00'', ''11:00'', ''12:00'', ''13:00'']"

definition scenario_combination :: dataframe where
  "scenario_combination =
     \<lparr>Hour = ''6:00'', Street_1 = 450, Street_2 = 130\<rparr> #
     map (\<lambda>h. \<lparr>Hour = h, Street_1 = 650, Street_2 = 130\<rparr>)
       [''7:00'', ''8:00'', ''9:00'', ''10:00'', ''11:00'', ''12:00'', ''13:00'', ''14:00'',
        ''15:00'']"

definition scenario_three_hours :: dataframe where
  "scenario_three_hours =
     [\<lparr>Hour = ''7:00'', Street_1 = 450, Street_2 = 10\<rparr>,
      \<lparr>Hour = ''8:00'', Street_1 = 450, Street_2 = 200\<rparr>,
      \<lparr>Hour = ''9:00'', Street_1 = 500, Street_2 = 150\<rparr>]"

definition scenario_c :: dataframe where
  "scenario_c = [\<lparr>Hour = ''7:00'', Street_1 = 250, Street_2 = 10\<rparr>]"



section \<open>Helper lemmas: sorted curves\<close>

lemma sorted_hd_le:
  "sorted (map f ps) \<Longrightarrow> p \<in> set ps \<Longrightarrow> f (hd ps) \<le> f p"
  by (cases ps) auto

lemma sorted_le_last:
  "sorted (map f ps) \<Longrightarrow> p \<in> set ps \<Longrightarrow> f p \<le> f (last ps)"
  by (induction ps) (auto split: if_splits)

lemma sort_key_nonempty: "ps \<noteq> [] \<Longrightarrow> sort_key f ps \<noteq> []"
  by (metis set_sort set_empty)

lemma hd_sort_Min:
  assumes "ps \<noteq> []"
  shows "fst (hd (sort_key fst ps)) = Min (fst ` set ps)"
proof -
  let ?qs = "sort_key fst ps"
  have ne: "?qs \<noteq> []" using assms by (rule sort_key_nonempty)
  have srt: "sorted (map fst ?qs)" by simp
  have "hd ?qs \<in> set ps" using ne by (metis hd_in_set set_sort)
  moreover have "\<And>p. p \<in> set ps \<Longrightarrow> fst (hd ?qs) \<le> fst p"
    using sorted_hd_le [OF srt] by simp
  ultimately show ?thesis
    by (intro Min_eqI [symmetric]) auto
qed

lemma last_sort_Max:
  assumes "ps \<noteq> []"
  shows "fst (last (sort_key fst ps)) = Max (fst ` set ps)"
proof -
  let ?qs = "sort_key fst ps"
  have ne: "?qs \<noteq> []" using assms by (rule sort_key_nonempty)
  have srt: "sorted (map fst ?qs)" by simp
  have "last ?qs \<in> set ps" using ne by (metis last_in_set set_sort)
  moreover have "\<And>p. p \<in> set ps \<Longrightarrow> fst p \<le> fst (last ?qs)"
    using sorted_le_last [OF srt] by simp
  ultimately show ?thesis
    by (intro Max_eqI [symmetric]) auto
qed

lemma hd_le_last_sorted:
  "ps \<noteq> [] \<Longrightarrow> sorted (map f ps) \<Longrightarrow> f (hd ps) \<le> f (last ps)"
  by (rule sorted_hd_le) auto

lemma loop_no_error: "interpolate_loop ps v \<noteq> Inl e"
  by (induction ps v rule: interpolate_loop.induct) (auto simp: truediv_def)

lemma widths_pos: "w \<in> set (division_widths ps v) \<Longrightarrow> 0 < w"
  by (induction ps v rule: division_widths.induct) (auto split: if_splits)

lemma loop_breakpoint:
  "sorted_wrt (<) (map fst ps) \<Longrightarrow> (x, y) \<in> set ps \<Longrightarrow> x < fst (last ps)
     \<Longrightarrow> interpolate_loop ps x = Inr (Some y)"
proof (induction ps x rule: interpolate_loop.induct)
  case (1 x1 y1 x2 y2 ps v)
  show ?case
  proof (cases "(v, y) = (x1, y1)")
    case True
    then show ?thesis using "1.prems" by (simp add: truediv_def)
  next
    case False
    then have mem: "(v, y) \<in> set ((x2, y2) # ps)" using "1.prems" by auto
    then have "x2 \<le> v" using "1.prems"(1) by auto
    then have ng: "\<not> (x1 \<le> v \<and> v < x2)" by simp
    have "interpolate_loop ((x2, y2) # ps) v = Inr (Some y)"
      using "1.IH" [OF ng] "1.prems" mem by simp
    then show ?thesis using ng by auto
  qed
qed auto

lemma strict_last_unique:
  "sorted_wrt (<) (map fst (ps :: curve)) \<Longrightarrow> (x, y) \<in> set ps \<Longrightarrow> fst (last ps) \<le> x
     \<Longrightarrow> (x, y) = last ps"
proof (induction ps)
  case Nil
  then show ?case by simp
next
  case (Cons p ps)
  show ?case
  proof (cases "ps = []")
    case True
    then show ?thesis using Cons.prems by simp
  next
    case False
    then have "last ps \<in> set ps" by simp
    then have "fst p < fst (last ps)" using Cons.prems(1) by simp
    then have "(x, y) \<noteq> p" using Cons.prems(3) False by auto
    then show ?thesis using Cons False by simp
  qed
qed

lemma segment_slope:
  "x1 \<le> v \<Longrightarrow> v < x2 \<Longrightarrow> y2 \<le> y1 \<Longrightarrow> (y2 - y1) / (x2 - x1) \<le> (0::real)"
  by (simp add: divide_nonpos_pos)

lemma segment_upper:
  assumes "x1 \<le> v" "v < x2" "y2 \<le> y1"
  shows "y1 + (y2 - y1) / (x2 - x1) * (v - x1) \<le> (y1::real)"
proof -
  have "(y2 - y1) / (x2 - x1) * (v - x1) \<le> 0"
    using segment_slope [OF assms] assms(1) by (intro mult_nonpos_nonneg) simp_all
  then show ?thesis by simp
qed

lemma segment_lower:
  assumes "x1 \<le> v" "v < x2" "y2 \<le> y1"
  shows "(y2::real) \<le> y1 + (y2 - y1) / (x2 - x1) * (v - x1)"
proof -
  have pos: "0 < x2 - x1" using assms by simp
  have "(y2 - y1) / (x2 - x1) * (x2 - x1) \<le> (y2 - y1) / (x2 - x1) * (v - x1)"
    using segment_slope [OF assms] assms(2) by (intro mult_left_mono_neg) simp_all
  moreover have "(y2 - y1) / (x2 - x1) * (x2 - x1) = y2 - y1" using pos by simp
  ultimately show ?thesis by simp
qed

lemma segment_mono:
  assumes "x1 \<le> a" "a \<le> b" "b < x2" "y2 \<le> y1"
  shows "y1 + (y2 - y1) / (x2 - x1) * (b - x1) \<le> (y1::real) + (y2 - y1) / (x2 - x1) * (a - x1)"
proof -
  have "x1 \<le> b" using assms by simp
  then have "(y2 - y1) / (x2 - x1) \<le> 0" using assms by (intro segment_slope)
  then have "(y2 - y1) / (x2 - x1) * (b - x1) \<le> (y2 - y1) / (x2 - x1) * (a - x1)"
    using assms(2) by (intro mult_left_mono_neg) simp_all
  then show ?thesis by simp
qed

lemma loop_bounds:
  "sorted (map fst ps) \<Longrightarrow> sorted_wrt (\<ge>) (map snd ps) \<Longrightarrow> ps \<noteq> []
     \<Longrightarrow> fst (hd ps) \<le> v \<Longrightarrow> v < fst (last ps)
     \<Longrightarrow> \<exists>y. interpolate_loop ps v = Inr (Some y) \<and> snd (last ps) \<le> y \<and> y \<le> snd (hd ps)"
proof (induction ps v rule: interpolate_loop.induct)
  case (1 x1 y1 x2 y2 ps v)
  have y21: "y2 \<le> y1" using "1.prems"(2) by simp
  have lasty: "snd (last ((x2, y2) # ps)) \<le> y2"
    using "1.prems"(2) by (auto split: if_splits)
  show ?case
  proof (cases "x1 \<le> v \<and> v < x2")
    case True
    then have ne: "x2 - x1 \<noteq> 0" by simp
    let ?y = "y1 + (y2 - y1) / (x2 - x1) * (v - x1)"
    have "interpolate_loop ((x1, y1) # (x2, y2) # ps) v = Inr (Some ?y)"
      using True ne by (simp add: truediv_def)
    moreover have "y2 \<le> ?y" using True y21 by (intro segment_lower) simp_all
    moreover have "?y \<le> y1" using True y21 by (intro segment_upper) simp_all
    ultimately show ?thesis using lasty by auto
  next
    case False
    then have x2v: "x2 \<le> v" using "1.prems"(4) by auto
    have "\<exists>y. interpolate_loop ((x2, y2) # ps) v = Inr (Some y)
             \<and> snd (last ((x2, y2) # ps)) \<le> y \<and> y \<le> snd (hd ((x2, y2) # ps))"
      using "1.prems" x2v by (intro "1.IH" [OF False]) auto
    then show ?thesis using False y21 by auto
  qed
qed simp_all

lemma loop_mono:
  "sorted (map fst ps) \<Longrightarrow> sorted_wrt (\<ge>) (map snd ps) \<Longrightarrow> ps \<noteq> []
     \<Longrightarrow> fst (hd ps) \<le> a \<Longrightarrow> a \<le> b \<Longrightarrow> b < fst (last ps)
     \<Longrightarrow> \<exists>ya yb. interpolate_loop ps a = Inr (Some ya)
            \<and> interpolate_loop ps b = Inr (Some yb) \<and> yb \<le> ya"
proof (induction ps a arbitrary: b rule: interpolate_loop.induct)
  case (1 x1 y1 x2 y2 ps a)
  have y21: "y2 \<le> y1" using "1.prems"(2) by simp
  show ?case
  proof (cases "x1 \<le> a \<and> a < x2")
    case True
    then have ne: "x2 - x1 \<noteq> 0" by simp
    let ?f = "\<lambda>v. y1 + (y2 - y1) / (x2 - x1) * (v - x1)"
    have ra: "interpolate_loop ((x1, y1) # (x2, y2) # ps) a = Inr (Some (?f a))"
      using True ne by (simp add: truediv_def)
    show ?thesis
    proof (cases "b < x2")
      case True
      then have "interpolate_loop ((x1, y1) # (x2, y2) # ps) b = Inr (Some (?f b))"
        using \<open>x1 \<le> a \<and> a < x2\<close> "1.prems"(5) ne by (simp add: truediv_def)
      moreover have "?f b \<le> ?f a"
        using \<open>x1 \<le> a \<and> a < x2\<close> "1.prems"(5) True y21 by (intro segment_mono) simp_all
      ultimately show ?thesis using ra by simp
    next
      case False
      then have x2b: "x2 \<le> b" by simp
      have "\<exists>y. interpolate_loop ((x2, y2) # ps) b = Inr (Some y)
               \<and> snd (last ((x2, y2) # ps)) \<le> y \<and> y \<le> snd (hd ((x2, y2) # ps))"
        using "1.prems" x2b by (intro loop_bounds) auto
      then obtain yb where yb: "interpolate_loop ((x2, y2) # ps) b = Inr (Some yb)" "yb \<le> y2"
        by auto
      have "interpolate_loop ((x1, y1) # (x2, y2) # ps) b = Inr (Some yb)"
        using False yb(1) by auto
      moreover have "y2 \<le> ?f a" using True y21 by (intro segment_lower) simp_all
      ultimately show ?thesis using ra yb(2) by auto
    qed
  next
    case False
    then have x2a: "x2 \<le> a" using "1.prems"(4) by auto
    then have nb: "\<not> (x1 \<le> b \<and> b < x2)" using "1.prems"(5) by auto
    have "\<exists>ya yb. interpolate_loop ((x2, y2) # ps) a = Inr (Some ya)
            \<and> interpolate_loop ((x2, y2) # ps) b = Inr (Some yb) \<and> yb \<le> ya"
      using "1.prems" x2a by (intro "1.IH" [OF False]) auto
    then show ?thesis using False nb by auto
  qed
qed simp_all

section \<open>The curve interpolator\<close>

text \<open>
  Claim C4. For every non-empty curve and every major volume greater than or equal to the
  largest major_vph of the curve, \<open>interpolate_threshold\<close> returns exactly the minor
  threshold of the last point of the sorted curve, however far above the last breakpoint
  the major volume is (flat extrapolation); that last point carries the largest major_vph.
\<close>

theorem interpolate_threshold_flat_above_last:
  assumes "curve_points \<noteq> []" and "Max (fst ` set curve_points) \<le> major_vol"
  shows "interpolate_threshold curve_points major_vol
           = Inr (Some (snd (last (sort_key fst curve_points))))
         \<and> fst (last (sort_key fst curve_points)) = Max (fst ` set curve_points)"
proof -
  let ?qs = "sort_key fst curve_points"
  have ne: "?qs \<noteq> []" using assms(1) by (rule sort_key_nonempty)
  have mx: "fst (last ?qs) = Max (fst ` set curve_points)"
    using assms(1) by (rule last_sort_Max)
  have "fst (hd ?qs) \<le> fst (last ?qs)"
    using ne by (rule hd_le_last_sorted) simp
  then have "\<not> major_vol < fst (hd ?qs)" using mx assms(2) by simp
  then show ?thesis
    using ne mx assms(2) by (simp add: interpolate_threshold_def Let_def)
qed

theorem interpolate_threshold_flat_above_last_witness:
  "example_curve \<noteq> []
   \<and> Max (fst ` set example_curve) \<le> 5000
   \<and> interpolate_threshold example_curve 5000 = Inr (Some 90)
   \<and> interpolate_threshold example_curve 500 = Inr (Some 90)"
  using interpolate_threshold_flat_above_last [of example_curve 5000]
    interpolate_threshold_flat_above_last [of example_curve 500]
  by (simp add: example_curve_def)

text \<open>
  Claim C5. For every non-empty curve and every major volume strictly below the smallest
  major_vph of the curve, \<open>interpolate_threshold\<close> returns \<^verbatim>\<open>None\<close> (not applicable): no
  number at all, so neither a zero threshold nor an extrapolated value.
\<close>

theorem interpolate_threshold_below_first:
  assumes "curve_points \<noteq> []" and "major_vol < Min (fst ` set curve_points)"
  shows "interpolate_threshold curve_points major_vol = Inr None"
proof -
  have "sort_key fst curve_points \<noteq> []" using assms(1) by (rule sort_key_nonempty)
  moreover have "major_vol < fst (hd (sort_key fst curve_points))"
    using assms by (simp add: hd_sort_Min)
  ultimately show ?thesis
    by (simp add: interpolate_threshold_def Let_def)
qed

theorem interpolate_threshold_below_first_witness:
  "example_curve \<noteq> []
   \<and> 250 < Min (fst ` set example_curve)
   \<and> interpolate_threshold example_curve 250 = Inr None"
  using interpolate_threshold_below_first [of example_curve 250]
  by (simp add: example_curve_def)

text \<open>
  Claim C6. For every curve whose points, in the sorted order the function works on, have
  strictly increasing major_vph: at a major volume equal to a breakpoint's major_vph,
  \<open>interpolate_threshold\<close> returns exactly that breakpoint's minor threshold. On every
  input (any curve, any major volume) it never raises \<open>ZeroDivisionError\<close>, and every
  width \<open>x2 - x1\<close> it divides by is strictly positive.
\<close>

theorem interpolate_threshold_breakpoints_no_zero_division:
  "(sorted_wrt (<) (map fst (sort_key fst curve_points)) \<longrightarrow>
      (\<forall>(x, y) \<in> set curve_points. interpolate_threshold curve_points x = Inr (Some y)))
   \<and> interpolate_threshold curve_points major_vol \<noteq> Inl ZeroDivisionError
   \<and> (\<forall>w \<in> set (division_widths (sort_key fst curve_points) major_vol). 0 < w)"
proof (intro conjI impI ballI)
  show "interpolate_threshold curve_points major_vol \<noteq> Inl ZeroDivisionError"
    using loop_no_error [of "sort_key fst curve_points" major_vol]
    by (auto simp: interpolate_threshold_def Let_def split: sum.splits option.splits)
next
  fix w assume "w \<in> set (division_widths (sort_key fst curve_points) major_vol)"
  then show "0 < w" by (rule widths_pos)
next
  fix p assume st: "sorted_wrt (<) (map fst (sort_key fst curve_points))"
    and mem: "p \<in> set curve_points"
  let ?qs = "sort_key fst curve_points"
  obtain x y where p: "p = (x, y)" by (cases p)
  have memq: "(x, y) \<in> set ?qs" using mem p by simp
  have ne: "?qs \<noteq> []" using mem by (intro sort_key_nonempty) auto
  have lo: "fst (hd ?qs) \<le> x"
    using sorted_hd_le [of fst ?qs "(x, y)"] memq by simp
  have "interpolate_threshold curve_points x = Inr (Some y)"
  proof (cases "fst (last ?qs) \<le> x")
    case True
    then have "(x, y) = last ?qs" using st memq by (intro strict_last_unique)
    then have "snd (last ?qs) = y" by (metis snd_conv)
    then show ?thesis using ne lo True
      by (simp add: interpolate_threshold_def Let_def)
  next
    case False
    then have "interpolate_loop ?qs x = Inr (Some y)"
      using st memq by (intro loop_breakpoint) auto
    then show ?thesis using ne lo False
      by (simp add: interpolate_threshold_def Let_def)
  qed
  then show "case p of (x, y) \<Rightarrow> interpolate_threshold curve_points x = Inr (Some y)"
    using p by simp
qed

theorem interpolate_threshold_breakpoints_no_zero_division_witness:
  "sorted_wrt (<) (map fst (sort_key fst example_curve))
   \<and> (400, 100) \<in> set example_curve
   \<and> interpolate_threshold example_curve 400 = Inr (Some 100)
   \<and> interpolate_threshold example_curve 350 \<noteq> Inl ZeroDivisionError
   \<and> 100 \<in> set (division_widths (sort_key fst example_curve) 350)
   \<and> (0::real) < 100"
proof -
  have s: "sorted_wrt (<) (map fst (sort_key fst example_curve))"
    by (simp add: example_curve_def)
  have m: "(400, 100) \<in> set example_curve" by (simp add: example_curve_def)
  have w: "100 \<in> set (division_widths (sort_key fst example_curve) 350)"
    by (simp add: example_curve_def)
  from interpolate_threshold_breakpoints_no_zero_division [of example_curve 350] s m w
  show ?thesis by auto
qed

text \<open>
  In exact arithmetic the interpolation is non-increasing over the whole range of a curve
  with non-increasing minor thresholds: for any \<open>a \<le> b\<close> at or above the smallest
  major_vph, the threshold at \<open>a\<close> is greater than or equal to the threshold at \<open>b\<close>.
  This is a fact about the arithmetic without rounding, not about the program.
\<close>

lemma interpolate_threshold_exact_non_increasing:
  assumes ne: "curve_points \<noteq> []"
    and mono: "sorted_wrt (\<ge>) (map snd (sort_key fst curve_points))"
    and lo: "Min (fst ` set curve_points) \<le> a"
    and ab: "a \<le> b"
  shows "\<exists>ya yb. interpolate_threshold curve_points a = Inr (Some ya)
           \<and> interpolate_threshold curve_points b = Inr (Some yb) \<and> yb \<le> ya"
proof -
  let ?qs = "sort_key fst curve_points"
  have qne: "?qs \<noteq> []" using ne by (rule sort_key_nonempty)
  have srt: "sorted (map fst ?qs)" by simp
  have hda: "fst (hd ?qs) \<le> a" using lo ne by (simp add: hd_sort_Min)
  then have hdb: "fst (hd ?qs) \<le> b" using ab by simp
  show ?thesis
  proof (cases "fst (last ?qs) \<le> a")
    case True
    then show ?thesis using qne hda hdb ab
      by (simp add: interpolate_threshold_def Let_def)
  next
    case False
    then have alt: "a < fst (last ?qs)" by simp
    show ?thesis
    proof (cases "fst (last ?qs) \<le> b")
      case True
      obtain ya where "interpolate_loop ?qs a = Inr (Some ya)" "snd (last ?qs) \<le> ya"
        using loop_bounds [OF srt mono qne hda alt] by auto
      then show ?thesis using qne hda hdb alt True
        by (simp add: interpolate_threshold_def Let_def)
    next
      case False
      then have "b < fst (last ?qs)" by simp
      then obtain ya yb where "interpolate_loop ?qs a = Inr (Some ya)"
          "interpolate_loop ?qs b = Inr (Some yb)" "yb \<le> ya"
        using loop_mono [OF srt mono qne hda ab] by auto
      then show ?thesis using qne hda hdb alt False
        by (simp add: interpolate_threshold_def Let_def)
    qed
  qed
qed

section \<open>Helper lemmas: rounding to the nearest double\<close>















section \<open>Monotonicity of the interpolator in double arithmetic\<close>

lemma interpolate_loop_fl_exact: "interpolate_loop_fl (\<lambda>x. x) ps v = interpolate_loop ps v"
  by (induction ps v rule: interpolate_loop.induct) simp_all

lemma interpolate_threshold_fl_exact:
  "interpolate_threshold_fl (\<lambda>x. x) c v = interpolate_threshold c v"
  by (simp add: interpolate_threshold_fl_def interpolate_threshold_def interpolate_loop_fl_exact
        Let_def)










section \<open>Helper lemmas: dictionaries, tables and errors\<close>

lemma getitem_simps:
  "getitem [] k = Inl KeyError"
  "getitem ((k', v) # d) k = (if k' = k then Inr v else getitem d k)"
  by (simp_all add: getitem_def)

lemma bindE_simps:
  "bindE (Inl e) f = Inl e"
  "bindE (Inr x) f = f x"
  by (simp_all add: bindE_def)

lemma map_of_dict_update:
  "map_of (dict_update d kvs) k =
     (case map_of (rev kvs) k of None \<Rightarrow> map_of d k | Some v \<Rightarrow> Some v)"
proof (induction kvs arbitrary: d)
  case Nil
  then show ?case by (simp add: dict_update_def)
next
  case (Cons kv kvs)
  obtain k' v' where kv: "kv = (k', v')" by (cases kv)
  have "map_of (dict_update d (kv # kvs)) k = map_of (dict_update (AList.update k' v' d) kvs) k"
    by (simp add: dict_update_def kv)
  also have "\<dots> = (case map_of (rev kvs) k of None \<Rightarrow> map_of (AList.update k' v' d) k
                    | Some v \<Rightarrow> Some v)"
    by (rule Cons.IH)
  finally show ?case
    by (auto simp: kv update_conv' map_add_def split: option.splits)
qed

lemma lane_key_cases:
  "get_lane_key a b \<in> {(1, 1), (2, 1), (2, 2), (1, 2)}"
  by (simp add: get_lane_key_def)

lemma w1_threshold_at:
  assumes "lk \<in> {(1, 1), (2, 1), (2, 2), (1, 2)}"
  shows "\<exists>t. w1_threshold ''condition_a'' lk ''100'' = Inr t"
    and "\<exists>t. w1_threshold ''condition_a'' lk ''80'' = Inr t"
    and "\<exists>t. w1_threshold ''condition_a'' lk ''70'' = Inr t"
    and "\<exists>t. w1_threshold ''condition_a'' lk ''56'' = Inr t"
    and "\<exists>t. w1_threshold ''condition_b'' lk ''100'' = Inr t"
    and "\<exists>t. w1_threshold ''condition_b'' lk ''80'' = Inr t"
    and "\<exists>t. w1_threshold ''condition_b'' lk ''70'' = Inr t"
    and "\<exists>t. w1_threshold ''condition_b'' lk ''56'' = Inr t"
  using assms
  by (auto simp: w1_threshold_def WARRANT1_THRESHOLDS_def getitem_simps bindE_simps)

lemma w1_threshold_total:
  assumes "cond \<in> {''condition_a'', ''condition_b''}" and "pct \<in> {''100'', ''80'', ''70'', ''56''}"
  shows "\<exists>t. w1_threshold cond (get_lane_key a b) pct = Inr t"
  using assms w1_threshold_at [OF lane_key_cases [of a b]] by auto

lemma pct_cases:
  "get_threshold_percentage s p False \<in> {''100'', ''80'', ''70'', ''56''}"
  "get_threshold_percentage s p True \<in> {''100'', ''80'', ''70'', ''56''}"
  by (simp_all add: get_threshold_percentage_def)

section \<open>Warrant 1\<close>

lemma fold_w1_row:
  "fold (w1_row ta tb tac tbc M m) df (a, b, c, d, hr) = (a', b', c', d', hr')
   \<Longrightarrow> a' = a + length (filter (\<lambda>row. hour_meets ta (vph M row) (vph m row)) df)
     \<and> b' = b + length (filter (\<lambda>row. hour_meets tb (vph M row) (vph m row)) df)
     \<and> c' = c + length (filter (\<lambda>row. hour_meets tac (vph M row) (vph m row)) df)
     \<and> d' = d + length (filter (\<lambda>row. hour_meets tbc (vph M row) (vph m row)) df)"
proof (induction df arbitrary: a b c d hr)
  case Nil
  then show ?case by simp
next
  case (Cons row df)
  obtain a1 b1 c1 d1 hr1
    where step: "w1_row ta tb tac tbc M m row (a, b, c, d, hr) = (a1, b1, c1, d1, hr1)"
    by (metis prod_cases5)
  then have st: "a1 = a + (if hour_meets ta (vph M row) (vph m row) then 1 else 0)"
      "b1 = b + (if hour_meets tb (vph M row) (vph m row) then 1 else 0)"
      "c1 = c + (if hour_meets tac (vph M row) (vph m row) then 1 else 0)"
      "d1 = d + (if hour_meets tbc (vph M row) (vph m row) then 1 else 0)"
    by (auto simp: w1_row_def hour_meets_def Let_def split: if_splits)
  have "fold (w1_row ta tb tac tbc M m) df (a1, b1, c1, d1, hr1) = (a', b', c', d', hr')"
    using Cons.prems step by simp
  from Cons.IH [OF this] show ?case using st by simp
qed

lemma evaluate_warrant1_unfold:
  assumes len: "8 \<le> length df"
  shows "\<exists>ta tb tac tbc r0.
      w1_threshold ''condition_a'' (get_lane_key major_lanes minor_lanes)
         (get_threshold_percentage speed population False) = Inr ta
    \<and> w1_threshold ''condition_b'' (get_lane_key major_lanes minor_lanes)
         (get_threshold_percentage speed population False) = Inr tb
    \<and> w1_threshold ''condition_a'' (get_lane_key major_lanes minor_lanes)
         (get_threshold_percentage speed population True) = Inr tac
    \<and> w1_threshold ''condition_b'' (get_lane_key major_lanes minor_lanes)
         (get_threshold_percentage speed population True) = Inr tbc
    \<and> map_of r0 ''condition'' = Some PNone
    \<and> evaluate_warrant1 (Some df) major_lanes minor_lanes speed population =
        Inr (w1_verdict (get_threshold_percentage speed population False)
               (get_threshold_percentage speed population True)
               (spec_hours ta df) (spec_hours tb df) (spec_hours tac df) (spec_hours tbc df) r0)"
proof -
  let ?lk = "get_lane_key major_lanes minor_lanes"
  let ?pct = "get_threshold_percentage speed population False"
  let ?pctc = "get_threshold_percentage speed population True"
  obtain ta where ta: "w1_threshold ''condition_a'' ?lk ?pct = Inr ta"
    using w1_threshold_total [OF _ pct_cases(1)] by blast
  obtain tb where tb: "w1_threshold ''condition_b'' ?lk ?pct = Inr tb"
    using w1_threshold_total [OF _ pct_cases(1)] by blast
  obtain tac where tac: "w1_threshold ''condition_a'' ?lk ?pctc = Inr tac"
    using w1_threshold_total [OF _ pct_cases(2)] by blast
  obtain tbc where tbc: "w1_threshold ''condition_b'' ?lk ?pctc = Inr tbc"
    using w1_threshold_total [OF _ pct_cases(2)] by blast
  obtain M m where Mm: "major_minor_cols df = (M, m)" by (cases "major_minor_cols df")
  obtain a b c d hr
    where fd: "fold (w1_row ta tb tac tbc M m) df (0, 0, 0, 0, []) = (a, b, c, d, hr)"
    by (metis prod_cases5)
  from fold_w1_row [OF fd]
  have cnt: "a = spec_hours ta df" "b = spec_hours tb df"
      "c = spec_hours tac df" "d = spec_hours tbc df"
    by (simp_all add: spec_hours_def Mm)
  define r0 where "r0 = [(''met'', PBool False), (''condition'', PNone), (''hours_met'', PInt 0),
                (''details'', PStr []),
                (''threshold_used'', PDict [(''pct'', PStr ?pct),
                   (''condition_a'', py_pair ta), (''condition_b'', py_pair tb)]),
                (''hourly_results'', PList hr),
                (''major_street'', PStr (street_name M)),
                (''minor_street'', PStr (street_name m))]"
  have "evaluate_warrant1 (Some df) major_lanes minor_lanes speed population =
        Inr (w1_verdict ?pct ?pctc a b c d r0)"
    using len by (simp add: evaluate_warrant1_def Let_def ta tb tac tbc bindE_simps Mm fd r0_def)
  moreover have "map_of r0 ''condition'' = Some PNone" by (simp add: r0_def)
  ultimately show ?thesis using ta tb tac tbc cnt by blast
qed

lemma w1_verdict_fields:
  "map_of (w1_verdict p pc a b c d r) ''met'' =
     Some (PBool (8 \<le> a \<or> 8 \<le> b \<or> (8 \<le> c \<and> 8 \<le> d)))"
  "map_of (w1_verdict p pc a b c d r) ''condition'' =
     (if 8 \<le> a then Some (PStr ''A'') else if 8 \<le> b then Some (PStr ''B'')
      else if 8 \<le> c \<and> 8 \<le> d then Some (PStr ''A+B'') else map_of r ''condition'')"
  "map_of (w1_verdict p pc a b c d r) ''hours_met'' =
     Some (PInt (int (if 8 \<le> a then a else if 8 \<le> b then b
      else if 8 \<le> c \<and> 8 \<le> d then min c d else max a b)))"
  by (simp_all add: w1_verdict_def map_of_dict_update)

text \<open>
  Claim C1. For every traffic series of at least 8 hourly rows \<open>evaluate_warrant1\<close> returns
  a verdict decided in first-match-wins order over the hour counts of the Condition A and
  Condition B pairs at the primary tier and at the combination tier (an hour counts for a
  pair iff its major volume reaches the pair's major threshold and its minor volume the
  pair's minor threshold): Condition A hours at least 8 gives met with condition "A"; else
  Condition B hours at least 8 gives met with condition "B"; else both combination counts
  at least 8 gives met with condition "A+B"; otherwise the verdict is not met and
  hours_met is the maximum of the Condition A and Condition B hour counts.
\<close>

theorem evaluate_warrant1_first_match_wins:
  assumes "8 \<le> length df"
  shows "\<exists>r pair_a pair_b pair_a_combo pair_b_combo.
      evaluate_warrant1 (Some df) major_lanes minor_lanes speed population = Inr r
    \<and> w1_threshold ''condition_a'' (get_lane_key major_lanes minor_lanes)
         (get_threshold_percentage speed population False) = Inr pair_a
    \<and> w1_threshold ''condition_b'' (get_lane_key major_lanes minor_lanes)
         (get_threshold_percentage speed population False) = Inr pair_b
    \<and> w1_threshold ''condition_a'' (get_lane_key major_lanes minor_lanes)
         (get_threshold_percentage speed population True) = Inr pair_a_combo
    \<and> w1_threshold ''condition_b'' (get_lane_key major_lanes minor_lanes)
         (get_threshold_percentage speed population True) = Inr pair_b_combo
    \<and> (if 8 \<le> spec_hours pair_a df then
          map_of r ''met'' = Some (PBool True) \<and> map_of r ''condition'' = Some (PStr ''A'')
        else if 8 \<le> spec_hours pair_b df then
          map_of r ''met'' = Some (PBool True) \<and> map_of r ''condition'' = Some (PStr ''B'')
        else if 8 \<le> spec_hours pair_a_combo df \<and> 8 \<le> spec_hours pair_b_combo df then
          map_of r ''met'' = Some (PBool True) \<and> map_of r ''condition'' = Some (PStr ''A+B'')
        else
          map_of r ''met'' = Some (PBool False)
          \<and> map_of r ''hours_met'' =
              Some (PInt (int (max (spec_hours pair_a df) (spec_hours pair_b df)))))"
proof -
  let ?pct = "get_threshold_percentage speed population False"
  let ?pctc = "get_threshold_percentage speed population True"
  let ?lk = "get_lane_key major_lanes minor_lanes"
  from evaluate_warrant1_unfold [OF assms, of major_lanes minor_lanes speed population]
  obtain ta tb tac tbc r0 where th:
    "w1_threshold ''condition_a'' ?lk ?pct = Inr ta"
    "w1_threshold ''condition_b'' ?lk ?pct = Inr tb"
    "w1_threshold ''condition_a'' ?lk ?pctc = Inr tac"
    "w1_threshold ''condition_b'' ?lk ?pctc = Inr tbc"
    and ev: "evaluate_warrant1 (Some df) major_lanes minor_lanes speed population =
        Inr (w1_verdict ?pct ?pctc
               (spec_hours ta df) (spec_hours tb df) (spec_hours tac df) (spec_hours tbc df) r0)"
    by blast
  define r where "r = w1_verdict ?pct ?pctc
               (spec_hours ta df) (spec_hours tb df) (spec_hours tac df) (spec_hours tbc df) r0"
  have dec: "if 8 \<le> spec_hours ta df then
          map_of r ''met'' = Some (PBool True) \<and> map_of r ''condition'' = Some (PStr ''A'')
        else if 8 \<le> spec_hours tb df then
          map_of r ''met'' = Some (PBool True) \<and> map_of r ''condition'' = Some (PStr ''B'')
        else if 8 \<le> spec_hours tac df \<and> 8 \<le> spec_hours tbc df then
          map_of r ''met'' = Some (PBool True) \<and> map_of r ''condition'' = Some (PStr ''A+B'')
        else
          map_of r ''met'' = Some (PBool False)
          \<and> map_of r ''hours_met'' =
              Some (PInt (int (max (spec_hours ta df) (spec_hours tb df))))"
    unfolding r_def by (simp add: w1_verdict_fields)
  have ev': "evaluate_warrant1 (Some df) major_lanes minor_lanes speed population = Inr r"
    using ev by (simp add: r_def)
  show ?thesis
    apply (rule exI [where x = r])
    apply (rule exI [where x = ta])
    apply (rule exI [where x = tb])
    apply (rule exI [where x = tac])
    apply (rule exI [where x = tbc])
    using th ev' dec apply (intro conjI)
         apply assumption+
    done
qed

theorem evaluate_warrant1_first_match_wins_witness:
  "8 \<le> length scenario_a
   \<and> (\<exists>r. evaluate_warrant1 (Some scenario_a) 1 1 35 15000 = Inr r
        \<and> map_of r ''met'' = Some (PBool True) \<and> map_of r ''condition'' = Some (PStr ''A''))"
proof -
  have len: "8 \<le> length scenario_a" by (simp add: scenario_a_def)
  have pa: "w1_threshold ''condition_a'' (get_lane_key 1 1) (get_threshold_percentage 35 15000 False)
              = Inr (500, 150)"
    by (simp add: w1_threshold_def WARRANT1_THRESHOLDS_def getitem_simps bindE_simps
          get_lane_key_def get_threshold_percentage_def)
  have cnt: "spec_hours (500, 150) scenario_a = 8"
    by (simp add: spec_hours_def major_minor_cols_def col_sum_def scenario_a_def hour_meets_def)
  from evaluate_warrant1_first_match_wins [OF len, of 1 1 35 15000] pa cnt show ?thesis
    using len by auto
qed

text \<open>
  Claim C10. Whenever \<open>evaluate_warrant1\<close> returns a verdict whose condition is "A+B",
  the verdict is met and its hours_met is the minimum of the combination-tier Condition A
  hour count and the combination-tier Condition B hour count.
\<close>

theorem evaluate_warrant1_combination_hours_met:
  assumes ev: "evaluate_warrant1 traffic_df major_lanes minor_lanes speed population = Inr r"
    and cond: "map_of r ''condition'' = Some (PStr ''A+B'')"
  shows "\<exists>df pair_a_combo pair_b_combo.
      traffic_df = Some df
    \<and> w1_threshold ''condition_a'' (get_lane_key major_lanes minor_lanes)
         (get_threshold_percentage speed population True) = Inr pair_a_combo
    \<and> w1_threshold ''condition_b'' (get_lane_key major_lanes minor_lanes)
         (get_threshold_percentage speed population True) = Inr pair_b_combo
    \<and> map_of r ''met'' = Some (PBool True)
    \<and> map_of r ''hours_met'' =
        Some (PInt (int (min (spec_hours pair_a_combo df) (spec_hours pair_b_combo df))))"
proof -
  let ?pct = "get_threshold_percentage speed population False"
  let ?pctc = "get_threshold_percentage speed population True"
  let ?lk = "get_lane_key major_lanes minor_lanes"
  have long: "traffic_df \<noteq> None \<and> 8 \<le> length (the traffic_df)"
  proof (rule ccontr)
    assume "\<not> ?thesis"
    then have "map_of r ''condition'' = Some PNone"
      using ev by (auto simp: evaluate_warrant1_def)
    then show False using cond by simp
  qed
  then obtain df where df: "traffic_df = Some df" "8 \<le> length df" by auto
  from evaluate_warrant1_unfold [OF df(2), of major_lanes minor_lanes speed population]
  obtain ta tb tac tbc r0 where th:
    "w1_threshold ''condition_a'' ?lk ?pctc = Inr tac"
    "w1_threshold ''condition_b'' ?lk ?pctc = Inr tbc"
    and r0: "map_of r0 ''condition'' = Some PNone"
    and ev': "evaluate_warrant1 (Some df) major_lanes minor_lanes speed population =
        Inr (w1_verdict ?pct ?pctc
               (spec_hours ta df) (spec_hours tb df) (spec_hours tac df) (spec_hours tbc df) r0)"
    by blast
  have r: "r = w1_verdict ?pct ?pctc
               (spec_hours ta df) (spec_hours tb df) (spec_hours tac df) (spec_hours tbc df) r0"
    using ev ev' df(1) by simp
  have br: "\<not> 8 \<le> spec_hours ta df \<and> \<not> 8 \<le> spec_hours tb df
            \<and> 8 \<le> spec_hours tac df \<and> 8 \<le> spec_hours tbc df"
    using cond r0 unfolding r by (auto simp: w1_verdict_fields split: if_splits)
  have "map_of r ''met'' = Some (PBool True)"
    and "map_of r ''hours_met'' =
        Some (PInt (int (min (spec_hours tac df) (spec_hours tbc df))))"
    using br unfolding r by (simp_all add: w1_verdict_fields)
  then show ?thesis using df(1) th by blast
qed

theorem evaluate_warrant1_combination_hours_met_witness:
  "\<exists>r. evaluate_warrant1 (Some scenario_combination) 1 1 35 15000 = Inr r
     \<and> map_of r ''condition'' = Some (PStr ''A+B'')
     \<and> map_of r ''met'' = Some (PBool True)
     \<and> map_of r ''hours_met'' = Some (PInt 9)"
proof -
  have len: "8 \<le> length scenario_combination" by (simp add: scenario_combination_def)
  have pa:
    "w1_threshold ''condition_a'' (get_lane_key 1 1) (get_threshold_percentage 35 15000 False)
       = Inr (500, 150)"
    "w1_threshold ''condition_b'' (get_lane_key 1 1) (get_threshold_percentage 35 15000 False)
       = Inr (750, 75)"
    "w1_threshold ''condition_a'' (get_lane_key 1 1) (get_threshold_percentage 35 15000 True)
       = Inr (400, 120)"
    "w1_threshold ''condition_b'' (get_lane_key 1 1) (get_threshold_percentage 35 15000 True)
       = Inr (600, 60)"
    by (simp_all add: w1_threshold_def WARRANT1_THRESHOLDS_def getitem_simps bindE_simps
          get_lane_key_def get_threshold_percentage_def)
  have cnt: "spec_hours (500, 150) scenario_combination = 0"
      "spec_hours (750, 75) scenario_combination = 0"
      "spec_hours (400, 120) scenario_combination = 10"
      "spec_hours (600, 60) scenario_combination = 9"
    by (simp_all add: spec_hours_def major_minor_cols_def col_sum_def scenario_combination_def
          hour_meets_def)
  from evaluate_warrant1_unfold [OF len, of 1 1 35 15000]
  obtain r where ev: "evaluate_warrant1 (Some scenario_combination) 1 1 35 15000 = Inr r"
    and c: "map_of r ''condition'' = Some (PStr ''A+B'')"
    by (auto simp: pa cnt w1_verdict_fields)
  from evaluate_warrant1_combination_hours_met [OF ev c] show ?thesis
    using ev c by (auto simp: pa cnt)
qed

section \<open>Warrant 7\<close>

lemma interpolate_threshold_total:
  assumes "curve_points \<noteq> []"
  shows "\<exists>t. interpolate_threshold curve_points v = Inr t"
proof -
  have "sort_key fst curve_points \<noteq> []" using assms by (rule sort_key_nonempty)
  then show ?thesis
    using loop_no_error [of "sort_key fst curve_points" v]
    by (auto simp: interpolate_threshold_def Let_def split: sum.splits option.splits)
qed

lemma w3_curve_at:
  assumes "lk \<in> {(1, 1), (2, 1), (2, 2), (1, 2)}"
  shows "\<exists>c. curve_for WARRANT3_CURVES ''100'' lk = Inr c \<and> c \<noteq> []"
    and "\<exists>c. curve_for WARRANT3_CURVES ''70'' lk = Inr c \<and> c \<noteq> []"
  using assms
  by (auto simp: curve_for_def WARRANT3_CURVES_def getitem_simps bindE_simps)

lemma w3_curve_total:
  "\<exists>c. curve_for WARRANT3_CURVES (if speed > 40 \<or> population < 10000 then ''70'' else ''100'')
          (get_lane_key a b) = Inr c \<and> c \<noteq> []"
  using w3_curve_at [OF lane_key_cases [of a b]] by auto

lemma w7_rows_hours:
  assumes "c \<noteq> []"
  shows "map_sum (\<lambda>e. e) fst (w7_rows ta tb c M m df (n, hr)) =
           Inr (n + length (filter (\<lambda>row.
                  hour_meets ta (vph M row) (vph m row)
                  \<or> hour_meets tb (vph M row) (vph m row)
                  \<or> curve_exceeded c (vph M row) (vph m row)) df))"
proof (induction df arbitrary: n hr)
  case Nil
  then show ?case by simp
next
  case (Cons row df)
  obtain t where t: "interpolate_threshold c (vph M row) = Inr t"
    using interpolate_threshold_total [OF assms] by blast
  have ce: "curve_exceeded c (vph M row) (vph m row) = (t \<noteq> None \<and> the t \<le> vph m row)"
    by (cases t) (simp_all add: curve_exceeded_def t)
  show ?case
    by (simp add: t bindE_simps Let_def hour_meets_def ce Cons.IH)
qed

lemma w7_rows_count:
  assumes "c \<noteq> []"
  shows "\<exists>hr'. w7_rows ta tb c M m df (n, hr) =
           Inr (n + length (filter (\<lambda>row.
                  hour_meets ta (vph M row) (vph m row)
                  \<or> hour_meets tb (vph M row) (vph m row)
                  \<or> curve_exceeded c (vph M row) (vph m row)) df), hr')"
  using w7_rows_hours [OF assms, of ta tb M m df n hr]
  by (cases "w7_rows ta tb c M m df (n, hr)") auto

lemma spec_w7_hours_le: "spec_w7_hours ta tb c df \<le> length df"
  by (cases "major_minor_cols df") (simp add: spec_w7_hours_def)

text \<open>
  Claim C2. \<open>evaluate_warrant7\<close> always returns a verdict, and the verdict is met iff the
  alternatives-tried flag is true and the correctable crashes are at least 5 and at least
  8 hours meet the volume condition, where an hour counts iff the 80%-tier Warrant 1
  Condition A pair is satisfied, or the 80%-tier Condition B pair is satisfied, or its
  minor volume reaches the Warrant 3 curve threshold at the tier selected by speed and
  population. The gates are taken in that order, each one short-circuiting: the flag of a
  gate is reported true only when every earlier gate passed, a missing alternatives flag
  gives the alternatives message whatever the crashes and the volumes are, and too few
  crashes give the crash message whatever the volumes are.
\<close>

theorem evaluate_warrant7_all_three_conditions:
  "\<exists>r pair_a pair_b c.
      evaluate_warrant7 traffic_df major_lanes minor_lanes speed population
        correctable_crashes alternatives_tried = Inr r
    \<and> w1_threshold ''condition_a'' (get_lane_key major_lanes minor_lanes) ''80'' = Inr pair_a
    \<and> w1_threshold ''condition_b'' (get_lane_key major_lanes minor_lanes) ''80'' = Inr pair_b
    \<and> curve_for WARRANT3_CURVES (if speed > 40 \<or> population < 10000 then ''70'' else ''100'')
         (get_lane_key major_lanes minor_lanes) = Inr c
    \<and> (let hours = (case traffic_df of None \<Rightarrow> 0 | Some df \<Rightarrow> spec_w7_hours pair_a pair_b c df);
            cond_a = alternatives_tried;
            cond_b = (5 \<le> correctable_crashes);
            cond_c = (8 \<le> hours)
        in map_of r ''met'' = Some (PBool (cond_a \<and> cond_b \<and> cond_c))
         \<and> map_of r ''condition_a'' = Some (PBool cond_a)
         \<and> map_of r ''condition_b'' = Some (PBool (cond_a \<and> cond_b))
         \<and> map_of r ''condition_c'' = Some (PBool (cond_a \<and> cond_b \<and> cond_c))
         \<and> (\<not> cond_a \<longrightarrow> map_of r ''details'' =
               Some (PStr ''NOT MET: Adequate trial of alternatives not documented''))
         \<and> (cond_a \<and> \<not> cond_b \<longrightarrow> map_of r ''details'' =
               Some (PFString [Lit ''NOT MET: '', Fld (PInt correctable_crashes) [],
                  Lit '' correctable crashes < 5 required (12-month period)''])))"
proof -
  let ?lk = "get_lane_key major_lanes minor_lanes"
  let ?pct = "if speed > 40 \<or> population < 10000 then ''70'' else ''100''"
  obtain ta where ta: "w1_threshold ''condition_a'' ?lk ''80'' = Inr ta"
    using w1_threshold_at(2) [OF lane_key_cases] by blast
  obtain tb where tb: "w1_threshold ''condition_b'' ?lk ''80'' = Inr tb"
    using w1_threshold_at(6) [OF lane_key_cases] by blast
  obtain c where c: "curve_for WARRANT3_CURVES ?pct ?lk = Inr c" and cne: "c \<noteq> []"
    using w3_curve_total [of speed population major_lanes minor_lanes] by blast
  let ?hours = "case traffic_df of None \<Rightarrow> 0 | Some df \<Rightarrow> spec_w7_hours ta tb c df"
  let ?P = "\<lambda>r. map_of r ''met'' =
        Some (PBool (alternatives_tried \<and> 5 \<le> correctable_crashes \<and> 8 \<le> ?hours))
      \<and> map_of r ''condition_a'' = Some (PBool alternatives_tried)
      \<and> map_of r ''condition_b'' = Some (PBool (alternatives_tried \<and> 5 \<le> correctable_crashes))
      \<and> map_of r ''condition_c'' =
        Some (PBool (alternatives_tried \<and> 5 \<le> correctable_crashes \<and> 8 \<le> ?hours))
      \<and> (\<not> alternatives_tried \<longrightarrow> map_of r ''details'' =
               Some (PStr ''NOT MET: Adequate trial of alternatives not documented''))
      \<and> (alternatives_tried \<and> \<not> 5 \<le> correctable_crashes \<longrightarrow> map_of r ''details'' =
               Some (PFString [Lit ''NOT MET: '', Fld (PInt correctable_crashes) [],
                  Lit '' correctable crashes < 5 required (12-month period)'']))"
  have "\<exists>r. evaluate_warrant7 traffic_df major_lanes minor_lanes speed population
        correctable_crashes alternatives_tried = Inr r \<and> ?P r"
  proof (cases "alternatives_tried \<and> 5 \<le> correctable_crashes")
    case False
    then show ?thesis by (auto simp: evaluate_warrant7_def)
  next
    case gates: True
    show ?thesis
    proof (cases "traffic_df = None \<or> length (the traffic_df) < 8")
      case True
      then have "\<not> 8 \<le> ?hours"
        using spec_w7_hours_le [of ta tb c "the traffic_df"] by (cases traffic_df) auto
      then show ?thesis using gates True by (simp add: evaluate_warrant7_def)
    next
      case False
      then obtain df where df: "traffic_df = Some df" "8 \<le> length df" by auto
      obtain M m where Mm: "major_minor_cols df = (M, m)" by (cases "major_minor_cols df")
      obtain hr where rows: "w7_rows ta tb c M m df (0, []) = Inr (spec_w7_hours ta tb c df, hr)"
        using w7_rows_count [OF cne, of ta tb M m df 0 "[]"] by (auto simp: spec_w7_hours_def Mm)
      show ?thesis using gates df
        by (simp add: evaluate_warrant7_def Let_def ta tb c bindE_simps Mm rows)
    qed
  qed
  then obtain r where ev: "evaluate_warrant7 traffic_df major_lanes minor_lanes speed population
        correctable_crashes alternatives_tried = Inr r" and P: "?P r" by blast
  show ?thesis
    apply (rule exI [where x = r])
    apply (rule exI [where x = ta])
    apply (rule exI [where x = tb])
    apply (rule exI [where x = c])
    using ev ta tb c P apply (simp add: Let_def)
    done
qed

theorem evaluate_warrant7_all_three_conditions_witness:
  "(\<exists>r. evaluate_warrant7 (Some scenario_a) 1 1 35 15000 5 True = Inr r
        \<and> map_of r ''met'' = Some (PBool True)
        \<and> map_of r ''condition_c'' = Some (PBool True))
   \<and> (\<exists>r. evaluate_warrant7 (Some scenario_a) 1 1 35 15000 0 False = Inr r
        \<and> map_of r ''met'' = Some (PBool False)
        \<and> map_of r ''details'' =
            Some (PStr ''NOT MET: Adequate trial of alternatives not documented''))
   \<and> (\<exists>r. evaluate_warrant7 (Some scenario_a) 1 1 35 15000 4 True = Inr r
        \<and> map_of r ''met'' = Some (PBool False)
        \<and> map_of r ''condition_a'' = Some (PBool True)
        \<and> map_of r ''details'' =
            Some (PFString [Lit ''NOT MET: '', Fld (PInt 4) [],
               Lit '' correctable crashes < 5 required (12-month period)'']))"
proof -
  have ta: "w1_threshold ''condition_a'' (get_lane_key 1 1) ''80'' = Inr (400, 120)"
    by (simp add: w1_threshold_def WARRANT1_THRESHOLDS_def getitem_simps bindE_simps
          get_lane_key_def)
  have hrs: "spec_w7_hours (400, 120) tb c scenario_a = 8" for tb c
    by (simp add: spec_w7_hours_def major_minor_cols_def col_sum_def scenario_a_def
          hour_meets_def)
  have "\<exists>r. evaluate_warrant7 (Some scenario_a) 1 1 35 15000 5 True = Inr r
        \<and> map_of r ''met'' = Some (PBool True)
        \<and> map_of r ''condition_c'' = Some (PBool True)"
    using evaluate_warrant7_all_three_conditions [of "Some scenario_a" 1 1 35 15000 5 True]
      ta hrs by (auto simp: Let_def)
  moreover have "\<exists>r. evaluate_warrant7 (Some scenario_a) 1 1 35 15000 0 False = Inr r
        \<and> map_of r ''met'' = Some (PBool False)
        \<and> map_of r ''details'' =
            Some (PStr ''NOT MET: Adequate trial of alternatives not documented'')"
    using evaluate_warrant7_all_three_conditions [of "Some scenario_a" 1 1 35 15000 0 False]
    by (auto simp: Let_def)
  moreover have "\<exists>r. evaluate_warrant7 (Some scenario_a) 1 1 35 15000 4 True = Inr r
        \<and> map_of r ''met'' = Some (PBool False)
        \<and> map_of r ''condition_a'' = Some (PBool True)
        \<and> map_of r ''details'' =
            Some (PFString [Lit ''NOT MET: '', Fld (PInt 4) [],
               Lit '' correctable crashes < 5 required (12-month period)''])"
    using evaluate_warrant7_all_three_conditions [of "Some scenario_a" 1 1 35 15000 4 True]
    by (auto simp: Let_def)
  ultimately show ?thesis by blast
qed

section \<open>Warrant 4\<close>

lemma too_few_rows_iff:
  "too_few_rows traffic_df n \<longleftrightarrow> traffic_df = None \<or> length (the traffic_df) < n"
  by (cases traffic_df) (simp_all add: too_few_rows_def)

lemma w4_curves_at:
  "\<exists>f p. getitem WARRANT4_CURVES (''four_hour_'' @ ''70'') = Inr f
       \<and> getitem WARRANT4_CURVES (''peak_hour_'' @ ''70'') = Inr p \<and> f \<noteq> [] \<and> p \<noteq> []"
  "\<exists>f p. getitem WARRANT4_CURVES (''four_hour_'' @ ''100'') = Inr f
       \<and> getitem WARRANT4_CURVES (''peak_hour_'' @ ''100'') = Inr p \<and> f \<noteq> [] \<and> p \<noteq> []"
  by (simp_all add: WARRANT4_CURVES_def getitem_simps)

lemma w4_curves_total:
  "\<exists>f p. getitem WARRANT4_CURVES
            (''four_hour_'' @ (if speed > 35 \<or> population < 10000 then ''70'' else ''100'')) = Inr f
       \<and> getitem WARRANT4_CURVES
            (''peak_hour_'' @ (if speed > 35 \<or> population < 10000 then ''70'' else ''100'')) = Inr p
       \<and> f \<noteq> [] \<and> p \<noteq> []"
  using w4_curves_at by (cases "speed > 35 \<or> population < 10000") presburger+

lemma col_max_Max:
  "df \<noteq> [] \<Longrightarrow> col_max df c = Max (set (map (vph c) df))"
  by (cases df) (simp_all add: col_max_def Max.set_eq_fold [symmetric])

lemma curve_exceeded_iff:
  "interpolate_threshold c x = Inr t \<Longrightarrow> curve_exceeded c x v = (t \<noteq> None \<and> the t \<le> v)"
  by (cases t) (simp_all add: curve_exceeded_def)

text \<open>
  Claim C8. \<open>evaluate_warrant4\<close> always returns a verdict and takes its hard gates in
  order, each short-circuiting: a distance to the nearest signal below 300 ft gives not
  met; otherwise 60 or more adequate gaps per hour give not met; otherwise a missing (or
  empty) traffic series gives NotApplicable. Past all gates the tier is "70" iff speed is
  above 35 mph or population below 10,000 (else "100"), the four-hour check compares the
  4-hour pedestrian average with the four-hour curve at the mean of the top four major
  volumes, the peak-hour check compares the peak pedestrian count with the peak-hour curve
  at the largest major volume, met is the disjunction of the two checks, and the criterion
  names the four-hour check whenever it passed and the peak-hour check only when the
  four-hour check failed and the peak-hour check passed.
\<close>

theorem evaluate_warrant4_gates_and_criterion:
  "\<exists>r four_hour_curve peak_hour_curve.
      evaluate_warrant4 traffic_df speed population ped_peak ped_4hr gaps_per_hour dist_to_signal
        = Inr r
    \<and> getitem WARRANT4_CURVES
         (''four_hour_'' @ (if speed > 35 \<or> population < 10000 then ''70'' else ''100''))
        = Inr four_hour_curve
    \<and> getitem WARRANT4_CURVES
         (''peak_hour_'' @ (if speed > 35 \<or> population < 10000 then ''70'' else ''100''))
        = Inr peak_hour_curve
    \<and> (if dist_to_signal < 300 then
          map_of r ''met'' = Some (PBool False)
          \<and> map_of r ''details'' = Some (PStr ''NOT MET: Distance to nearest signal < 300 ft'')
        else if 60 \<le> gaps_per_hour then
          map_of r ''met'' = Some (PBool False)
          \<and> map_of r ''details'' =
              Some (PFString [Lit ''NOT MET: Adequate gaps ('', Fld (PNum gaps_per_hour) [],
                 Lit ''/hr) >= 60 required maximum''])
        else if too_few_rows traffic_df 1 then
          map_of r ''met'' = Some PNone
        else
          (let df = the traffic_df;
               majors = map (vph (fst (major_minor_cols df))) df;
               four = curve_exceeded four_hour_curve (mean (nlargest 4 majors)) ped_4hr;
               peak = curve_exceeded peak_hour_curve (Max (set majors)) ped_peak
           in map_of r ''pct'' =
                Some (PStr (if speed > 35 \<or> population < 10000 then ''70'' else ''100''))
            \<and> map_of r ''four_hour_met'' = Some (PBool four)
            \<and> map_of r ''peak_hour_met'' = Some (PBool peak)
            \<and> map_of r ''met'' = Some (PBool (four \<or> peak))
            \<and> map_of r ''criterion'' =
                Some (if four then PStr ''Four-Hour''
                      else if peak then PStr ''Peak Hour'' else PNone)))"
proof -
  let ?pct = "if speed > 35 \<or> population < 10000 then ''70'' else ''100''"
  obtain f p where f: "getitem WARRANT4_CURVES (''four_hour_'' @ ?pct) = Inr f"
    and p: "getitem WARRANT4_CURVES (''peak_hour_'' @ ?pct) = Inr p"
    and ne: "f \<noteq> []" "p \<noteq> []"
    using w4_curves_total [of speed population] by blast
  let ?Q = "\<lambda>r. (if dist_to_signal < 300 then
          map_of r ''met'' = Some (PBool False)
          \<and> map_of r ''details'' = Some (PStr ''NOT MET: Distance to nearest signal < 300 ft'')
        else if 60 \<le> gaps_per_hour then
          map_of r ''met'' = Some (PBool False)
          \<and> map_of r ''details'' =
              Some (PFString [Lit ''NOT MET: Adequate gaps ('', Fld (PNum gaps_per_hour) [],
                 Lit ''/hr) >= 60 required maximum''])
        else if too_few_rows traffic_df 1 then
          map_of r ''met'' = Some PNone
        else
          (let df = the traffic_df;
               majors = map (vph (fst (major_minor_cols df))) df;
               four = curve_exceeded f (mean (nlargest 4 majors)) ped_4hr;
               peak = curve_exceeded p (Max (set majors)) ped_peak
           in map_of r ''pct'' = Some (PStr ?pct)
            \<and> map_of r ''four_hour_met'' = Some (PBool four)
            \<and> map_of r ''peak_hour_met'' = Some (PBool peak)
            \<and> map_of r ''met'' = Some (PBool (four \<or> peak))
            \<and> map_of r ''criterion'' =
                Some (if four then PStr ''Four-Hour''
                      else if peak then PStr ''Peak Hour'' else PNone)))"
  have "\<exists>r. evaluate_warrant4 traffic_df speed population ped_peak ped_4hr gaps_per_hour
          dist_to_signal = Inr r \<and> ?Q r"
  proof (cases "dist_to_signal < 300 \<or> 60 \<le> gaps_per_hour")
    case True
    then show ?thesis by (auto simp: evaluate_warrant4_def Let_def)
  next
    case gates: False
    show ?thesis
    proof (cases "too_few_rows traffic_df 1")
      case True
      then have "traffic_df = None \<or> length (the traffic_df) < 1"
        by (simp add: too_few_rows_iff)
      then show ?thesis using gates True f p
        by (simp add: evaluate_warrant4_def Let_def bindE_simps)
    next
      case False
      then have long: "\<not> (traffic_df = None \<or> length (the traffic_df) < 1)"
        by (simp add: too_few_rows_iff)
      define df where "df = the traffic_df"
      have dfne: "df \<noteq> []" using long by (auto simp: df_def)
      let ?mc = "if col_sum df Street2 \<le> col_sum df Street1 then Street1 else Street2"
      have mc: "fst (major_minor_cols df) = ?mc"
        by (simp add: major_minor_cols_def Let_def)
      obtain t4 where t4: "interpolate_threshold f (mean (nlargest 4 (map (vph ?mc) df))) = Inr t4"
        using interpolate_threshold_total [OF ne(1)] by blast
      obtain tp where tp: "interpolate_threshold p (col_max df ?mc) = Inr tp"
        using interpolate_threshold_total [OF ne(2)] by blast
      have mx: "col_max df ?mc = Max (set (map (vph ?mc) df))"
        using dfne by (rule col_max_Max)
      have c4: "curve_exceeded f (mean (nlargest 4 (map (vph ?mc) df))) ped_4hr
                  = (t4 \<noteq> None \<and> the t4 \<le> ped_4hr)"
        using t4 by (rule curve_exceeded_iff)
      have cp: "curve_exceeded p (Max (set (map (vph ?mc) df))) ped_peak
                  = (tp \<noteq> None \<and> the tp \<le> ped_peak)"
        using tp unfolding mx by (rule curve_exceeded_iff)
      have ev: "evaluate_warrant4 traffic_df speed population ped_peak ped_4hr gaps_per_hour
          dist_to_signal = Inr (w4_verdict ?pct ped_peak ped_4hr gaps_per_hour f p t4 tp)"
        using gates long f p t4 tp unfolding df_def
        by (cases "speed > 35 \<or> population < 10000";
            cases "col_sum (the traffic_df) Street2 \<le> col_sum (the traffic_df) Street1")
           (auto simp: evaluate_warrant4_def Let_def bindE_simps)
      have "?Q (w4_verdict ?pct ped_peak ped_4hr gaps_per_hour f p t4 tp)"
        using gates False
        unfolding Let_def df_def [symmetric] mc c4 cp
        by (simp add: w4_verdict_def Let_def)
      then show ?thesis using ev by blast
    qed
  qed
  then obtain r where ev: "evaluate_warrant4 traffic_df speed population ped_peak ped_4hr
      gaps_per_hour dist_to_signal = Inr r" and Q: "?Q r" by blast
  show ?thesis
    apply (rule exI [where x = r])
    apply (rule exI [where x = f])
    apply (rule exI [where x = p])
    using ev f p Q apply (intro conjI)
       apply assumption+
    done
qed

theorem evaluate_warrant4_gates_and_criterion_witness:
  "(\<exists>r. evaluate_warrant4 None 30 15000 300 200 50 200 = Inr r
        \<and> map_of r ''met'' = Some (PBool False)
        \<and> map_of r ''details'' = Some (PStr ''NOT MET: Distance to nearest signal < 300 ft''))
   \<and> (\<exists>r. evaluate_warrant4 None 30 15000 300 200 60 400 = Inr r
        \<and> map_of r ''met'' = Some (PBool False))
   \<and> (\<exists>r. evaluate_warrant4 None 30 15000 300 200 50 400 = Inr r
        \<and> map_of r ''met'' = Some PNone)
   \<and> (\<exists>r. evaluate_warrant4 (Some scenario_three_hours) 30 15000 300 200 50 400 = Inr r
        \<and> map_of r ''met'' = Some (PBool True)
        \<and> map_of r ''pct'' = Some (PStr ''100'')
        \<and> map_of r ''criterion'' = Some (PStr ''Four-Hour''))
   \<and> (\<exists>r. evaluate_warrant4 (Some scenario_three_hours) 30 15000 300 20 50 400 = Inr r
        \<and> map_of r ''met'' = Some (PBool True)
        \<and> map_of r ''criterion'' = Some (PStr ''Peak Hour''))"
proof -
  have mj: "map (vph (fst (major_minor_cols scenario_three_hours))) scenario_three_hours
              = [450, 450, 500]"
    by (simp add: major_minor_cols_def col_sum_def scenario_three_hours_def)
  have top: "mean (nlargest 4 [450, 450, 500]) = 1400 / 3"
    by (simp add: mean_def nlargest_def)
  have f: "getitem WARRANT4_CURVES ''four_hour_100'' = Inr c \<longleftrightarrow>
      c = [(300, 190), (400, 150), (500, 130), (600, 115), (700, 107), (800, 100),
           (900, 100), (1000, 100)]" for c
    by (auto simp: WARRANT4_CURVES_def getitem_simps)
  have p: "getitem WARRANT4_CURVES ''peak_hour_100'' = Inr c \<longleftrightarrow>
      c = [(300, 380), (400, 300), (500, 260), (600, 230), (700, 214), (800, 200),
           (900, 200), (1000, 200)]" for c
    by (auto simp: WARRANT4_CURVES_def getitem_simps)
  have four: "curve_exceeded [(300, 190), (400, 150), (500, 130), (600, 115), (700, 107),
      (800, 100), (900, 100), (1000, 100)] (1400 / 3) v \<longleftrightarrow> 410 / 3 \<le> v" for v
    by (simp add: curve_exceeded_def interpolate_threshold_def truediv_def)
  have peak: "curve_exceeded [(300, 380), (400, 300), (500, 260), (600, 230), (700, 214),
      (800, 200), (900, 200), (1000, 200)] 500 v \<longleftrightarrow> 260 \<le> v" for v
    by (simp add: curve_exceeded_def interpolate_threshold_def truediv_def)
  have g1: "\<exists>r. evaluate_warrant4 None 30 15000 300 200 50 200 = Inr r
        \<and> map_of r ''met'' = Some (PBool False)
        \<and> map_of r ''details'' = Some (PStr ''NOT MET: Distance to nearest signal < 300 ft'')"
    using evaluate_warrant4_gates_and_criterion [of None 30 15000 300 200 50 200] by auto
  have g2: "\<exists>r. evaluate_warrant4 None 30 15000 300 200 60 400 = Inr r
        \<and> map_of r ''met'' = Some (PBool False)"
    using evaluate_warrant4_gates_and_criterion [of None 30 15000 300 200 60 400] by auto
  have g3: "\<exists>r. evaluate_warrant4 None 30 15000 300 200 50 400 = Inr r
        \<and> map_of r ''met'' = Some PNone"
    using evaluate_warrant4_gates_and_criterion [of None 30 15000 300 200 50 400]
    by (auto simp: too_few_rows_def)
  have g4: "\<exists>r. evaluate_warrant4 (Some scenario_three_hours) 30 15000 300 200 50 400 = Inr r
        \<and> map_of r ''met'' = Some (PBool True)
        \<and> map_of r ''pct'' = Some (PStr ''100'')
        \<and> map_of r ''criterion'' = Some (PStr ''Four-Hour'')"
    using evaluate_warrant4_gates_and_criterion
            [of "Some scenario_three_hours" 30 15000 300 200 50 400]
    by (simp only: Let_def option.sel mj top) (auto simp: f p four peak too_few_rows_def scenario_three_hours_def)
  have g5: "\<exists>r. evaluate_warrant4 (Some scenario_three_hours) 30 15000 300 20 50 400 = Inr r
        \<and> map_of r ''met'' = Some (PBool True)
        \<and> map_of r ''criterion'' = Some (PStr ''Peak Hour'')"
    using evaluate_warrant4_gates_and_criterion
            [of "Some scenario_three_hours" 30 15000 300 20 50 400]
    by (simp only: Let_def option.sel mj top) (auto simp: f p four peak too_few_rows_def scenario_three_hours_def)
  from g1 g2 g3 g4 g5 show ?thesis by blast
qed

section \<open>Warrant 3\<close>

lemma idxmax_from_first_max:
  "i = length pre \<Longrightarrow> bi < i \<Longrightarrow> pre ! bi = b \<Longrightarrow> \<forall>j<i. pre ! j \<le> b
     \<Longrightarrow> \<forall>j<bi. pre ! j < b
     \<Longrightarrow> idxmax_from xs i bi b < length (pre @ xs)
       \<and> (\<forall>j<length (pre @ xs). (pre @ xs) ! j \<le> (pre @ xs) ! idxmax_from xs i bi b)
       \<and> (\<forall>j<idxmax_from xs i bi b. (pre @ xs) ! j < (pre @ xs) ! idxmax_from xs i bi b)"
proof (induction xs arbitrary: pre i bi b)
  case Nil
  then show ?case by simp
next
  case (Cons x xs)
  have app: "pre @ x # xs = (pre @ [x]) @ xs" by simp
  show ?case
  proof (cases "x > b")
    case True
    have "idxmax_from xs (i + 1) i x < length ((pre @ [x]) @ xs)
       \<and> (\<forall>j<length ((pre @ [x]) @ xs).
             ((pre @ [x]) @ xs) ! j \<le> ((pre @ [x]) @ xs) ! idxmax_from xs (i + 1) i x)
       \<and> (\<forall>j<idxmax_from xs (i + 1) i x.
             ((pre @ [x]) @ xs) ! j < ((pre @ [x]) @ xs) ! idxmax_from xs (i + 1) i x)"
    proof (rule Cons.IH)
      show "i + 1 = length (pre @ [x])" using Cons.prems(1) by simp
      show "i < i + 1" by simp
      show "(pre @ [x]) ! i = x" using Cons.prems(1) by simp
      show "\<forall>j<i + 1. (pre @ [x]) ! j \<le> x"
        using Cons.prems(1,4) True by (auto simp: nth_append less_Suc_eq intro: order_trans less_imp_le)
      show "\<forall>j<i. (pre @ [x]) ! j < x"
        using Cons.prems(1,4) True by (auto simp: nth_append intro: le_less_trans)
    qed
    then show ?thesis using True unfolding app by simp
  next
    case False
    have "idxmax_from xs (i + 1) bi b < length ((pre @ [x]) @ xs)
       \<and> (\<forall>j<length ((pre @ [x]) @ xs).
             ((pre @ [x]) @ xs) ! j \<le> ((pre @ [x]) @ xs) ! idxmax_from xs (i + 1) bi b)
       \<and> (\<forall>j<idxmax_from xs (i + 1) bi b.
             ((pre @ [x]) @ xs) ! j < ((pre @ [x]) @ xs) ! idxmax_from xs (i + 1) bi b)"
    proof (rule Cons.IH)
      show "i + 1 = length (pre @ [x])" using Cons.prems(1) by simp
      show "bi < i + 1" using Cons.prems(2) by simp
      show "(pre @ [x]) ! bi = b" using Cons.prems(1,2,3) by (simp add: nth_append)
      show "\<forall>j<i + 1. (pre @ [x]) ! j \<le> b"
        using Cons.prems(1,4) False by (auto simp: nth_append less_Suc_eq)
      show "\<forall>j<bi. (pre @ [x]) ! j < b"
        using Cons.prems(1,2,5) by (auto simp: nth_append)
    qed
    then show ?thesis using False unfolding app by simp
  qed
qed

lemma idxmax_first_max:
  assumes "xs \<noteq> []"
  shows "idxmax xs < length xs
       \<and> (\<forall>j<length xs. xs ! j \<le> xs ! idxmax xs)
       \<and> (\<forall>j<idxmax xs. xs ! j < xs ! idxmax xs)"
proof -
  obtain x ys where xs: "xs = x # ys" using assms by (cases xs) auto
  have "idxmax_from ys 1 0 x < length ([x] @ ys)
       \<and> (\<forall>j<length ([x] @ ys). ([x] @ ys) ! j \<le> ([x] @ ys) ! idxmax_from ys 1 0 x)
       \<and> (\<forall>j<idxmax_from ys 1 0 x. ([x] @ ys) ! j < ([x] @ ys) ! idxmax_from ys 1 0 x)"
    by (rule idxmax_from_first_max) simp_all
  then show ?thesis by (simp add: xs)
qed

lemma interpolate_threshold_None_below:
  assumes "c \<noteq> []" and "v < Min (fst ` set c)"
  shows "interpolate_threshold c v = Inr None"
proof -
  have "sort_key fst c \<noteq> []" using assms(1) by (rule sort_key_nonempty)
  then show ?thesis using assms by (simp add: interpolate_threshold_def Let_def hd_sort_Min)
qed

text \<open>
  Claim C9. For every non-empty traffic series \<open>evaluate_warrant3\<close> returns a verdict whose
  peak hour is the row with the largest major + minor total, the first such row in input
  order when several share it. The verdict is met iff the interpolation at the peak
  hour's major volume yields a threshold (is not NotApplicable) and the peak hour's minor
  volume is greater than or equal to it. When the peak major volume is below the smallest
  major_vph of the curve, the threshold is NotApplicable, the verdict is not met and its
  details are the message "NOT MET: Major volume below curve range".
\<close>

theorem evaluate_warrant3_peak_hour:
  assumes "df \<noteq> []"
  shows "\<exists>r c i.
      evaluate_warrant3 (Some df) major_lanes minor_lanes speed population = Inr r
    \<and> curve_for WARRANT3_CURVES (if speed > 40 \<or> population < 10000 then ''70'' else ''100'')
         (get_lane_key major_lanes minor_lanes) = Inr c
    \<and> i < length df
    \<and> (\<forall>j<length df. hour_total df j \<le> hour_total df i)
    \<and> (\<forall>j<i. hour_total df j < hour_total df i)
    \<and> (let peak_major = vph (fst (major_minor_cols df)) (df ! i);
            peak_minor = vph (snd (major_minor_cols df)) (df ! i)
        in map_of r ''peak_hour'' = Some (PStr (Hour (df ! i)))
         \<and> map_of r ''peak_major'' = Some (PNum peak_major)
         \<and> map_of r ''peak_minor'' = Some (PNum peak_minor)
         \<and> map_of r ''met'' = Some (PBool (curve_exceeded c peak_major peak_minor))
         \<and> (peak_major < Min (fst ` set c) \<longrightarrow>
               map_of r ''met'' = Some (PBool False)
             \<and> map_of r ''threshold'' = Some PNone
             \<and> map_of r ''details'' = Some (PStr ''NOT MET: Major volume below curve range'')))"
proof -
  let ?pct = "if speed > 40 \<or> population < 10000 then ''70'' else ''100''"
  obtain c where c: "curve_for WARRANT3_CURVES ?pct (get_lane_key major_lanes minor_lanes) = Inr c"
    and cne: "c \<noteq> []"
    using w3_curve_total [of speed population major_lanes minor_lanes] by blast
  obtain M m where Mm: "major_minor_cols df = (M, m)" by (cases "major_minor_cols df")
  define total where "total = map (\<lambda>row. vph M row + vph m row) df"
  define i where "i = idxmax total"
  have tne: "total \<noteq> []" using assms by (simp add: total_def)
  have len: "length total = length df" by (simp add: total_def)
  have tot: "hour_total df j = total ! j" if "j < length df" for j
    using that by (simp add: hour_total_def Mm total_def)
  from idxmax_first_max [OF tne]
  have i1: "i < length df"
    and i2: "\<forall>j<length df. total ! j \<le> total ! i"
    and i3: "\<forall>j<i. total ! j < total ! i"
    by (simp_all add: i_def len)
  have p2: "\<forall>j<length df. hour_total df j \<le> hour_total df i"
    using i1 i2 by (simp add: tot)
  have p3: "\<forall>j<i. hour_total df j < hour_total df i"
    using i1 i3 by (simp add: tot)
  obtain t where t: "interpolate_threshold c (vph M (df ! i)) = Inr t"
    using interpolate_threshold_total [OF cne] by blast
  have ce: "curve_exceeded c (vph M (df ! i)) (vph m (df ! i)) = (t \<noteq> None \<and> the t \<le> vph m (df ! i))"
    using t by (rule curve_exceeded_iff)
  have below: "t = None" if "vph M (df ! i) < Min (fst ` set c)"
    using interpolate_threshold_None_below [OF cne that] t by simp
  have ev: "\<exists>r. evaluate_warrant3 (Some df) major_lanes minor_lanes speed population = Inr r
      \<and> map_of r ''peak_hour'' = Some (PStr (Hour (df ! i)))
      \<and> map_of r ''peak_major'' = Some (PNum (vph M (df ! i)))
      \<and> map_of r ''peak_minor'' = Some (PNum (vph m (df ! i)))
      \<and> map_of r ''met'' = Some (PBool (t \<noteq> None \<and> the t \<le> vph m (df ! i)))
      \<and> map_of r ''threshold'' = Some (py_opt t)
      \<and> map_of r ''details'' =
          Some (if truthy t then
                 PFString [Fld (PStr (if t \<noteq> None \<and> the t \<le> vph m (df ! i)
                                       then ''MET'' else ''NOT MET'')) [],
                   Lit '': Peak hour ('', Fld (PStr (Hour (df ! i))) [], Lit '') - '',
                   Fld (PNum (vph m (df ! i))) ''.0f'', Lit '' vph vs '',
                   Fld (py_opt t) ''.0f'', Lit '' vph threshold ('',
                   Fld (PStr ?pct) [], Lit ''%)'']
               else PStr ''NOT MET: Major volume below curve range'')"
    using assms c t
    unfolding evaluate_warrant3_def Let_def i_def total_def
    by (cases "speed > 40 \<or> population < 10000") (auto simp: bindE_simps Mm)
  then obtain r where r:
      "evaluate_warrant3 (Some df) major_lanes minor_lanes speed population = Inr r"
      "map_of r ''peak_hour'' = Some (PStr (Hour (df ! i)))"
      "map_of r ''peak_major'' = Some (PNum (vph M (df ! i)))"
      "map_of r ''peak_minor'' = Some (PNum (vph m (df ! i)))"
      "map_of r ''met'' = Some (PBool (t \<noteq> None \<and> the t \<le> vph m (df ! i)))"
      "map_of r ''threshold'' = Some (py_opt t)"
      "map_of r ''details'' =
          Some (if truthy t then
                 PFString [Fld (PStr (if t \<noteq> None \<and> the t \<le> vph m (df ! i)
                                       then ''MET'' else ''NOT MET'')) [],
                   Lit '': Peak hour ('', Fld (PStr (Hour (df ! i))) [], Lit '') - '',
                   Fld (PNum (vph m (df ! i))) ''.0f'', Lit '' vph vs '',
                   Fld (py_opt t) ''.0f'', Lit '' vph threshold ('',
                   Fld (PStr ?pct) [], Lit ''%)'']
               else PStr ''NOT MET: Major volume below curve range'')"
    by blast
  have last: "vph M (df ! i) < Min (fst ` set c) \<longrightarrow>
               map_of r ''met'' = Some (PBool False)
             \<and> map_of r ''threshold'' = Some PNone
             \<and> map_of r ''details'' = Some (PStr ''NOT MET: Major volume below curve range'')"
    using below r(5,6,7) by (auto simp: truthy_def py_opt_def)
  show ?thesis
    apply (rule exI [where x = r])
    apply (rule exI [where x = c])
    apply (rule exI [where x = i])
    using r(1-5) c i1 p2 p3 last ce apply (simp add: Let_def Mm)
    done
qed

theorem evaluate_warrant3_peak_hour_witness:
  "scenario_three_hours \<noteq> []
   \<and> (\<exists>r. evaluate_warrant3 (Some scenario_three_hours) 1 1 35 15000 = Inr r
        \<and> map_of r ''peak_hour'' = Some (PStr ''8:00'')
        \<and> map_of r ''met'' = Some (PBool True))
   \<and> scenario_c \<noteq> []
   \<and> (\<exists>r. evaluate_warrant3 (Some scenario_c) 1 1 35 15000 = Inr r
        \<and> map_of r ''met'' = Some (PBool False)
        \<and> map_of r ''details'' = Some (PStr ''NOT MET: Major volume below curve range''))"
proof -
  let ?c = "[(400, 150), (500, 135), (600, 120), (700, 105), (800, 100), (900, 100),
             (1000, 100)] :: curve"
  have cv: "curve_for WARRANT3_CURVES (if (35::real) > 40 \<or> (15000::real) < 10000 then ''70'' else ''100'')
              (get_lane_key 1 1) = Inr c \<longleftrightarrow> c = ?c" for c
    by (auto simp: curve_for_def WARRANT3_CURVES_def getitem_simps bindE_simps get_lane_key_def)
  have ne3: "scenario_three_hours \<noteq> []" by (simp add: scenario_three_hours_def)
  have nec: "scenario_c \<noteq> []" by (simp add: scenario_c_def)
  have cols3: "major_minor_cols scenario_three_hours = (Street1, Street2)"
    by (simp add: major_minor_cols_def col_sum_def scenario_three_hours_def)
  have colsc: "major_minor_cols scenario_c = (Street1, Street2)"
    by (simp add: major_minor_cols_def col_sum_def scenario_c_def)
  have tots: "hour_total scenario_three_hours 0 = 460"
      "hour_total scenario_three_hours 1 = 650"
      "hour_total scenario_three_hours 2 = 650"
    by (simp_all add: hour_total_def major_minor_cols_def col_sum_def scenario_three_hours_def)
  have ex: "curve_exceeded ?c 450 200"
    by (simp add: curve_exceeded_def interpolate_threshold_def truediv_def)
  have mn: "Min (fst ` set ?c) = 400" by simp
  from evaluate_warrant3_peak_hour [OF ne3, of 1 1 35 15000]
  obtain r i where r: "evaluate_warrant3 (Some scenario_three_hours) 1 1 35 15000 = Inr r"
    and i: "i < length scenario_three_hours"
      "\<forall>j<length scenario_three_hours. hour_total scenario_three_hours j
          \<le> hour_total scenario_three_hours i"
      "\<forall>j<i. hour_total scenario_three_hours j < hour_total scenario_three_hours i"
    and f: "map_of r ''peak_hour'' = Some (PStr (Hour (scenario_three_hours ! i)))"
      "map_of r ''met'' = Some (PBool (curve_exceeded ?c
          (vph Street1 (scenario_three_hours ! i)) (vph Street2 (scenario_three_hours ! i))))"
    unfolding cv Let_def cols3 by auto
  have "i < 3" using i(1) by (simp add: scenario_three_hours_def)
  then consider "i = 0" | "i = 1" | "i = 2" by linarith
  then have i1: "i = 1"
  proof cases
    case 1
    have "hour_total scenario_three_hours 1 \<le> hour_total scenario_three_hours i"
      using i(2) by (simp add: scenario_three_hours_def)
    then show ?thesis using 1 tots by simp
  next
    case 2
    then show ?thesis .
  next
    case 3
    have "hour_total scenario_three_hours 1 < hour_total scenario_three_hours i"
      using i(3) 3 by simp
    then show ?thesis using 3 tots by simp
  qed
  have g1: "\<exists>r. evaluate_warrant3 (Some scenario_three_hours) 1 1 35 15000 = Inr r
        \<and> map_of r ''peak_hour'' = Some (PStr ''8:00'')
        \<and> map_of r ''met'' = Some (PBool True)"
    using r f ex unfolding i1 by (auto simp: scenario_three_hours_def)
  from evaluate_warrant3_peak_hour [OF nec, of 1 1 35 15000]
  obtain r' k where r': "evaluate_warrant3 (Some scenario_c) 1 1 35 15000 = Inr r'"
    and k: "k < length scenario_c"
    and f': "vph Street1 (scenario_c ! k) < Min (fst ` set ?c) \<longrightarrow>
               map_of r' ''met'' = Some (PBool False)
             \<and> map_of r' ''threshold'' = Some PNone
             \<and> map_of r' ''details'' = Some (PStr ''NOT MET: Major volume below curve range'')"
    unfolding cv Let_def colsc by auto
  have "k = 0" using k by (simp add: scenario_c_def)
  then have g2: "\<exists>r. evaluate_warrant3 (Some scenario_c) 1 1 35 15000 = Inr r
        \<and> map_of r ''met'' = Some (PBool False)
        \<and> map_of r ''details'' = Some (PStr ''NOT MET: Major volume below curve range'')"
    using r' f' unfolding mn by (auto simp: scenario_c_def)
  from ne3 nec g1 g2 show ?thesis by blast
qed

section \<open>Missing or insufficient traffic data\<close>

text \<open>
  Claim C3 as stated fails: with a missing traffic series, the alternatives documented
  and 5 correctable crashes, \<open>evaluate_warrant7\<close> returns a plain not-met verdict
  (\<^verbatim>\<open>'met': False\<close>, "NOT MET: Insufficient traffic data for volume analysis"), not
  NotApplicable; and \<open>evaluate_warrant4\<close> with a missing series and 60 adequate gaps per
  hour returns not met, because its gap gate comes before the traffic-series check.
\<close>

theorem insufficient_data_not_always_not_applicable:
  "evaluate_warrant7 None 1 1 35 15000 5 True =
     Inr [(''met'', PBool False),
          (''details'', PStr ''NOT MET: Insufficient traffic data for volume analysis''),
          (''condition_a'', PBool True),
          (''condition_b'', PBool True),
          (''condition_c'', PBool False),
          (''correctable_crashes'', PInt 5),
          (''hours_meeting_volume'', PInt 0)]
   \<and> map_of (projr (evaluate_warrant7 None 1 1 35 15000 5 True)) ''met'' \<noteq> Some PNone
   \<and> evaluate_warrant4 None 35 15000 0 0 60 1000 =
     Inr [(''met'', PBool False),
          (''details'', PFString [Lit ''NOT MET: Adequate gaps ('', Fld (PNum 60) [],
             Lit ''/hr) >= 60 required maximum'']),
          (''criterion'', PNone),
          (''four_hour_met'', PBool False),
          (''peak_hour_met'', PBool False)]
   \<and> map_of (projr (evaluate_warrant4 None 35 15000 0 0 60 1000)) ''met'' \<noteq> Some PNone"
  by (simp add: evaluate_warrant7_def evaluate_warrant4_def)

text \<open>
  Claim C3, amended. When the traffic series is missing or has fewer rows than the
  warrant's minimum, no evaluator raises, and: Warrants 1, 2 and 3 (minimum 8, 4 and 1
  rows) return NotApplicable (met is \<^verbatim>\<open>None\<close>); Warrant 4 (minimum 1 row) returns
  NotApplicable exactly when both of its hard gates pass (distance at least 300 ft and
  fewer than 60 adequate gaps per hour) and not met otherwise; Warrant 7 (minimum 8 rows
  for its condition C) returns a not-met verdict (met and condition_c both
  \<^verbatim>\<open>False\<close>), never NotApplicable.
\<close>

theorem insufficient_data_verdicts:
  "(too_few_rows traffic_df 8 \<longrightarrow>
      (\<exists>r. evaluate_warrant1 traffic_df major_lanes minor_lanes speed population = Inr r
          \<and> map_of r ''met'' = Some PNone))
   \<and> (too_few_rows traffic_df 4 \<longrightarrow>
      (\<exists>r. evaluate_warrant2 traffic_df major_lanes minor_lanes speed population = Inr r
          \<and> map_of r ''met'' = Some PNone))
   \<and> (too_few_rows traffic_df 1 \<longrightarrow>
      (\<exists>r. evaluate_warrant3 traffic_df major_lanes minor_lanes speed population = Inr r
          \<and> map_of r ''met'' = Some PNone))
   \<and> (too_few_rows traffic_df 1 \<longrightarrow>
      (\<exists>r. evaluate_warrant4 traffic_df speed population ped_peak ped_4hr gaps_per_hour
              dist_to_signal = Inr r
          \<and> map_of r ''met'' =
              Some (if dist_to_signal < 300 \<or> 60 \<le> gaps_per_hour then PBool False else PNone)))
   \<and> (too_few_rows traffic_df 8 \<longrightarrow>
      (\<exists>r. evaluate_warrant7 traffic_df major_lanes minor_lanes speed population
              correctable_crashes alternatives_tried = Inr r
          \<and> map_of r ''met'' = Some (PBool False)
          \<and> map_of r ''condition_c'' = Some (PBool False)))"
proof (intro conjI impI)
  assume "too_few_rows traffic_df 8"
  then have short: "traffic_df = None \<or> length (the traffic_df) < 8"
    by (simp add: too_few_rows_iff)
  show "\<exists>r. evaluate_warrant1 traffic_df major_lanes minor_lanes speed population = Inr r
          \<and> map_of r ''met'' = Some PNone"
    using short by (simp add: evaluate_warrant1_def)
  show "\<exists>r. evaluate_warrant7 traffic_df major_lanes minor_lanes speed population
              correctable_crashes alternatives_tried = Inr r
          \<and> map_of r ''met'' = Some (PBool False)
          \<and> map_of r ''condition_c'' = Some (PBool False)"
    using short by (simp add: evaluate_warrant7_def)
next
  assume "too_few_rows traffic_df 4"
  then have "traffic_df = None \<or> length (the traffic_df) < 4"
    by (simp add: too_few_rows_iff)
  then show "\<exists>r. evaluate_warrant2 traffic_df major_lanes minor_lanes speed population = Inr r
          \<and> map_of r ''met'' = Some PNone"
    by (simp add: evaluate_warrant2_def)
next
  assume "too_few_rows traffic_df 1"
  then have short: "traffic_df = None \<or> length (the traffic_df) < 1"
    by (simp add: too_few_rows_iff)
  show "\<exists>r. evaluate_warrant3 traffic_df major_lanes minor_lanes speed population = Inr r
          \<and> map_of r ''met'' = Some PNone"
    using short by (simp add: evaluate_warrant3_def)
  obtain f p where
    "getitem WARRANT4_CURVES
       (''four_hour_'' @ (if speed > 35 \<or> population < 10000 then ''70'' else ''100'')) = Inr f"
    "getitem WARRANT4_CURVES
       (''peak_hour_'' @ (if speed > 35 \<or> population < 10000 then ''70'' else ''100'')) = Inr p"
    using w4_curves_total [of speed population] by blast
  then show "\<exists>r. evaluate_warrant4 traffic_df speed population ped_peak ped_4hr gaps_per_hour
              dist_to_signal = Inr r
          \<and> map_of r ''met'' =
              Some (if dist_to_signal < 300 \<or> 60 \<le> gaps_per_hour then PBool False else PNone)"
    using short by (simp add: evaluate_warrant4_def Let_def bindE_simps)
qed

theorem insufficient_data_verdicts_witness:
  "too_few_rows None 8 \<and> too_few_rows None 4 \<and> too_few_rows None 1
   \<and> (\<exists>r. evaluate_warrant1 None 1 1 35 15000 = Inr r \<and> map_of r ''met'' = Some PNone)
   \<and> (\<exists>r. evaluate_warrant2 None 1 1 35 15000 = Inr r \<and> map_of r ''met'' = Some PNone)
   \<and> (\<exists>r. evaluate_warrant3 None 1 1 35 15000 = Inr r \<and> map_of r ''met'' = Some PNone)
   \<and> (\<exists>r. evaluate_warrant4 None 35 15000 0 0 50 1000 = Inr r \<and> map_of r ''met'' = Some PNone)
   \<and> (\<exists>r. evaluate_warrant7 None 1 1 35 15000 5 True = Inr r
        \<and> map_of r ''met'' = Some (PBool False))"
proof -
  have h: "too_few_rows None 8" "too_few_rows None 4" "too_few_rows None 1"
    by (simp_all add: too_few_rows_def)
  from insufficient_data_verdicts [of None 1 1 35 15000 0 0 50 1000 5 True] h
  show ?thesis by auto
qed

end
